theory Spec2Isabelle
  imports Main "HOL-Library.Word"
begin

section \<open>Status codes, subsystem identifiers and subsystem states\<close>

text \<open>
  \<open>esp_err_t\<close> is a signed 32-bit status of ESP-IDF; only equality with \<open>ESP_OK\<close> is ever
  tested by the framework, so it is kept as an integer. The named constants carry the
  values of ESP-IDF's \<open>esp_err.h\<close>.
\<close>

type_synonym esp_err_t = int

definition ESP_OK :: esp_err_t where "ESP_OK = 0"
definition ESP_FAIL :: esp_err_t where "ESP_FAIL = - 1"
definition ESP_ERR_NO_MEM :: esp_err_t where "ESP_ERR_NO_MEM = 257"
definition ESP_ERR_INVALID_ARG :: esp_err_t where "ESP_ERR_INVALID_ARG = 258"
definition ESP_ERR_INVALID_STATE :: esp_err_t where "ESP_ERR_INVALID_STATE = 259"
definition ESP_ERR_NOT_SUPPORTED :: esp_err_t where "ESP_ERR_NOT_SUPPORTED = 262"

text \<open>The enum \<open>tab5_subsystem_state_t\<close> of Tab5duino.h; the first constructor is the value 0.\<close>

datatype tab5_subsystem_state_t =
    TAB5_SUBSYSTEM_UNINITIALIZED
  | TAB5_SUBSYSTEM_INITIALIZING
  | TAB5_SUBSYSTEM_READY
  | TAB5_SUBSYSTEM_ERROR

text \<open>
  The enum \<open>tab5_subsystem_t\<close>. Its enumerators are the numbers 0 to 8; the code uses them
  as an array size and as array indices. An object of the enum type is 32 bits wide and
  can hold any bit pattern. Where the code compares one with \<open>TAB5_SUBSYSTEM_COUNT\<close> or
  indexes an array with it, its value is taken after the integral promotion, as an
  \<open>int\<close>: the number \<open>sint subsystem\<close>. The enumerator \<open>k\<close> as an object of the enum type
  is \<open>word_of_nat k\<close>.
\<close>

type_synonym tab5_subsystem_t = "32 word"

definition TAB5_SUBSYSTEM_DISPLAY :: nat where "TAB5_SUBSYSTEM_DISPLAY = 0"
definition TAB5_SUBSYSTEM_TOUCH :: nat where "TAB5_SUBSYSTEM_TOUCH = 1"
definition TAB5_SUBSYSTEM_IMU :: nat where "TAB5_SUBSYSTEM_IMU = 2"
definition TAB5_SUBSYSTEM_AUDIO :: nat where "TAB5_SUBSYSTEM_AUDIO = 3"
definition TAB5_SUBSYSTEM_POWER :: nat where "TAB5_SUBSYSTEM_POWER = 4"
definition TAB5_SUBSYSTEM_USB :: nat where "TAB5_SUBSYSTEM_USB = 5"
definition TAB5_SUBSYSTEM_WIFI :: nat where "TAB5_SUBSYSTEM_WIFI = 6"
definition TAB5_SUBSYSTEM_LVGL :: nat where "TAB5_SUBSYSTEM_LVGL = 7"
definition TAB5_SUBSYSTEM_COUNT :: nat where "TAB5_SUBSYSTEM_COUNT = 8"

definition subsystem_names :: "string list" where
  "subsystem_names =
     [''Display'', ''Touch'', ''IMU'', ''Audio'', ''Power'', ''USB'', ''WiFi'', ''LVGL'']"

section \<open>The framework instance\<close>

record tab5duino_config_t =
  auto_init_display :: bool
  auto_init_touch :: bool
  auto_init_imu :: bool
  auto_init_audio :: bool
  auto_init_lvgl :: bool
  enable_psram :: bool
  enable_usb_serial :: bool
  loop_stack_size :: "32 word"
  loop_task_priority :: "8 word"
  loop_task_core :: "8 word"

text \<open>A \<open>TaskHandle_t\<close> is a pointer to a task control block: \<open>None\<close> is \<open>NULL\<close>.\<close>

type_synonym TaskHandle_t = "nat option"

record tab5duino_instance_t =
  config :: tab5duino_config_t
  subsystem_states :: "tab5_subsystem_state_t list"
  loop_task_handle :: TaskHandle_t
  framework_initialized :: bool
  user_setup_called :: bool
  boot_time_us :: "64 word"

definition TAB5DUINO_CONFIG_DEFAULT :: tab5duino_config_t where
  "TAB5DUINO_CONFIG_DEFAULT =
     \<lparr> auto_init_display = True, auto_init_touch = True, auto_init_imu = True,
       auto_init_audio = False, auto_init_lvgl = True, enable_psram = True,
       enable_usb_serial = True, loop_stack_size = 8192, loop_task_priority = 1,
       loop_task_core = 1 \<rparr>"

text \<open>
  The all-zero bytes of a configuration and of an instance: what the initialiser \<open>{0}\<close> of
  \<open>g_tab5duino_instance\<close> and the \<open>memset\<close> of \<open>tab5duino_deinit\<close> produce.
\<close>

definition config_zero :: tab5duino_config_t where
  "config_zero =
     \<lparr> auto_init_display = False, auto_init_touch = False, auto_init_imu = False,
       auto_init_audio = False, auto_init_lvgl = False, enable_psram = False,
       enable_usb_serial = False, loop_stack_size = 0, loop_task_priority = 0,
       loop_task_core = 0 \<rparr>"

definition instance_zero :: tab5duino_instance_t where
  "instance_zero =
     \<lparr> config = config_zero,
       subsystem_states = replicate TAB5_SUBSYSTEM_COUNT TAB5_SUBSYSTEM_UNINITIALIZED,
       loop_task_handle = None, framework_initialized = False,
       user_setup_called = False, boot_time_us = 0 \<rparr>"

text \<open>
  The array \<open>subsystem_states\<close> has \<open>TAB5_SUBSYSTEM_COUNT\<close> cells; a list of any other
  length is not an instance of the C type.
\<close>

definition instance_ok :: "tab5duino_instance_t \<Rightarrow> bool" where
  "instance_ok i = (length (subsystem_states i) = TAB5_SUBSYSTEM_COUNT)"

section \<open>Querying a subsystem state\<close>

text \<open>
  \<open>tab5duino_get_subsystem_state\<close>, Tab5duino.cpp lines 362 to 367. The only test is
  \<open>subsystem >= TAB5_SUBSYSTEM_COUNT\<close>, on the promoted values, so an identifier that is
  negative as an \<open>int\<close> passes it and the array is read at a negative index. The
  behaviour of the C program is undefined there; the result is then \<open>None\<close>.
\<close>

definition tab5duino_get_subsystem_state ::
  "tab5duino_instance_t \<Rightarrow> tab5_subsystem_t \<Rightarrow> tab5_subsystem_state_t option" where
  "tab5duino_get_subsystem_state g subsystem =
     (if sint subsystem \<ge> int TAB5_SUBSYSTEM_COUNT then Some TAB5_SUBSYSTEM_ERROR
      else if sint subsystem < 0 then None
      else Some (subsystem_states g ! unat subsystem))"

section \<open>The handle of the LVGL integration\<close>

text \<open>
  The structures of lvgl\_tab5duino.h and lvgl\_tab5duino.cpp. Pointers to objects owned
  by LVGL, FreeRTOS and the HALs are opaque: \<open>None\<close> is \<open>NULL\<close>, \<open>Some a\<close> a live object.
\<close>

type_synonym ptr = "nat option"

record lvgl_tab5_config_t =
  enable_ppa_acceleration :: bool
  enable_vsync :: bool
  enable_double_buffer :: bool
  buffer_lines :: "16 word"
  rotation :: "8 word"
  enable_multi_touch :: bool
  enable_gestures :: bool
  touch_threshold :: "8 word"
  gesture_threshold :: "16 word"
  task_priority :: "8 word"
  task_stack_size :: "16 word"
  task_core :: "8 word"
  tick_period_ms :: "8 word"
  use_psram_buffers :: bool
  psram_cache_size :: "32 word"

definition LVGL_TAB5_CONFIG_DEFAULT :: lvgl_tab5_config_t where
  "LVGL_TAB5_CONFIG_DEFAULT =
     \<lparr> enable_ppa_acceleration = True, enable_vsync = True, enable_double_buffer = True,
       buffer_lines = 120, rotation = 0, enable_multi_touch = True, enable_gestures = True,
       touch_threshold = 10, gesture_threshold = 50, task_priority = 2,
       task_stack_size = 8 * 1024, task_core = 1, tick_period_ms = 5,
       use_psram_buffers = True, psram_cache_size = 2 * 1024 * 1024 \<rparr>"

record lvgl_tab5_context_t =
  display :: ptr
  touchpad :: ptr
  draw_buffer :: ptr
  buffer1 :: ptr
  buffer2 :: ptr
  display_hal :: ptr
  touch_hal :: ptr
  lvgl_task :: TaskHandle_t
  lvgl_mutex :: ptr
  initialized :: bool

record lvgl_tab5_handle_s =
  lvgl_context :: lvgl_tab5_context_t
  lvgl_config :: lvgl_tab5_config_t
  ready_callback :: bool
  error_callback :: bool
  frame_count :: "64 word"
  last_perf_time :: "64 word"
  fps_average :: "16 word"
  cpu_usage :: "8 word"
  started :: bool

text \<open>A handle as \<open>calloc\<close> returns it: every byte zero.\<close>

definition lvgl_config_zero :: lvgl_tab5_config_t where
  "lvgl_config_zero =
     \<lparr> enable_ppa_acceleration = False, enable_vsync = False, enable_double_buffer = False,
       buffer_lines = 0, rotation = 0, enable_multi_touch = False, enable_gestures = False,
       touch_threshold = 0, gesture_threshold = 0, task_priority = 0,
       task_stack_size = 0, task_core = 0, tick_period_ms = 0,
       use_psram_buffers = False, psram_cache_size = 0 \<rparr>"

definition handle_zero :: lvgl_tab5_handle_s where
  "handle_zero =
     \<lparr> lvgl_context = \<lparr> display = None, touchpad = None, draw_buffer = None, buffer1 = None,
                        buffer2 = None, display_hal = None, touch_hal = None, lvgl_task = None,
                        lvgl_mutex = None, initialized = False \<rparr>,
       lvgl_config = lvgl_config_zero, ready_callback = False, error_callback = False,
       frame_count = 0, last_perf_time = 0, fps_average = 0, cpu_usage = 0,
       started = False \<rparr>"

section \<open>Observable effects and the environment\<close>

text \<open>
  Everything the framework does besides updating its own data is an external call: a log
  line, a driver, RTOS, HAL or LVGL call, a user hook. The model appends each of them to
  a trace in the order the code performs them. A log line is recorded with its format
  string and its arguments, an external call with the name of the C function and, for
  the calls that draw, start the tick timer or create a task, the integer arguments the
  code passes. Calls that only read (the clock, the PSRAM status) are not recorded.
  \<open>Callback_ready\<close> is the call of the ready callback registered on an LVGL handle.
\<close>

datatype log_level = LOGE | LOGW | LOGI

datatype log_arg = ArgS string | ArgD int | ArgErr esp_err_t

datatype event =
    Log log_level string "log_arg list"
  | Call string "int list"
  | Hook_on_framework_init
  | Hook_on_framework_ready
  | Hook_on_subsystem_error nat esp_err_t
  | Hook_on_lvgl_ready
  | Callback_ready

text \<open>The touch point of touch\_hal.h (fields prefixed, \<open>x\<close>, \<open>size\<close> and \<open>id\<close> being taken).\<close>

record touch_point_t =
  tp_x :: "16 word"
  tp_y :: "16 word"
  tp_pressure :: "8 word"
  tp_size :: "8 word"
  tp_id :: "8 word"
  tp_is_valid :: bool

definition TOUCH_MAX_POINTS :: nat where "TOUCH_MAX_POINTS = 10"

text \<open>
  The environment fixes what the external world answers: each field is the result of the
  external function it is named after (with the call site where a function is called
  from two places). A function that returns a pointer answers \<open>None\<close> when it fails.
  \<open>xTaskCreatePinnedToCore\<close> answers the handle of the new task, or \<open>None\<close> when its
  result is not \<open>pdPASS\<close>; FreeRTOS writes the handle argument only on success. A HAL
  init answers its status and what it stored in the handle argument. The clock answers
  one value; no property below depends on the time.

  The optional hooks of Tab5duino.h are weak symbols: the code tests each one for being
  bound before calling it. A hook's body is user code; its invocation is an event of the
  trace.
\<close>

record env =
  esp_timer_get_time :: "64 word"
  esp_psram_is_initialized :: bool
  esp_psram_get_size :: nat
  usb_serial_jtag_driver_install :: esp_err_t
  xTaskCreatePinnedToCore_loop :: TaskHandle_t
  on_framework_init_bound :: bool
  on_framework_ready_bound :: bool
  on_subsystem_error_bound :: bool
  on_lvgl_ready_bound :: bool
  calloc_handle :: bool
  xSemaphoreCreateMutex :: ptr
  display_hal_init :: "esp_err_t \<times> ptr"
  touch_hal_init :: "esp_err_t \<times> ptr"
  heap_caps_malloc_buffer1 :: ptr
  heap_caps_malloc_buffer2 :: ptr
  malloc_draw_buffer :: ptr
  lv_disp_drv_register :: ptr
  lv_indev_drv_register :: ptr
  esp_timer_create :: "esp_err_t \<times> ptr"
  display_hal_start :: esp_err_t
  touch_hal_start :: esp_err_t
  esp_timer_start_periodic :: esp_err_t
  xTaskCreatePinnedToCore_lvgl :: TaskHandle_t
  display_hal_ppa_blend :: esp_err_t
  touch_hal_read_points :: "esp_err_t \<times> touch_point_t list \<times> 8 word"

text \<open>
  The mutable state: the global instance of Tab5duino.cpp, the handle object that the
  static pointer \<open>lvgl_handle\<close> of \<open>tab5duino_init_subsystem\<close> refers to (\<open>None\<close> when the
  pointer is \<open>NULL\<close>; the same object is the \<open>user_data\<close> of the two LVGL drivers), the
  static \<open>lvgl_tick_timer\<close> of lvgl\_tab5duino.cpp, and the trace.
\<close>

record world =
  g_tab5duino_instance :: tab5duino_instance_t
  lvgl_handle :: "lvgl_tab5_handle_s option"
  lvgl_tick_timer :: ptr
  trace :: "event list"

text \<open>Performing an external call or writing a log line.\<close>

definition emit :: "event \<Rightarrow> world \<Rightarrow> world" where
  "emit e w = w\<lparr>trace := trace w @ [e]\<rparr>"

text \<open>An external call or log line under a condition: \<open>if (c) { e; }\<close>.\<close>

definition emit_when :: "bool \<Rightarrow> event \<Rightarrow> world \<Rightarrow> world" where
  "emit_when c e w = (if c then emit e w else w)"

text \<open>
  Reading and writing the cell \<open>g_tab5duino_instance.subsystem_states[i]\<close>, for an index
  \<open>i\<close> inside the array.
\<close>

definition state_of :: "world \<Rightarrow> nat \<Rightarrow> tab5_subsystem_state_t" where
  "state_of w i = subsystem_states (g_tab5duino_instance w) ! i"

definition set_state :: "nat \<Rightarrow> tab5_subsystem_state_t \<Rightarrow> world \<Rightarrow> world" where
  "set_state i v w =
     w\<lparr>g_tab5duino_instance := (g_tab5duino_instance w)
          \<lparr>subsystem_states := (subsystem_states (g_tab5duino_instance w))[i := v]\<rparr>\<rparr>"

text \<open>
  Writing and reading a field of \<open>handle->context\<close>, for the handle in the state. The code
  does both only behind a test that the handle is not \<open>NULL\<close>.
\<close>

definition set_context :: "(lvgl_tab5_context_t \<Rightarrow> lvgl_tab5_context_t) \<Rightarrow> world \<Rightarrow> world" where
  "set_context f w =
     w\<lparr>lvgl_handle := map_option (\<lambda>h. h\<lparr>lvgl_context := f (lvgl_context h)\<rparr>) (lvgl_handle w)\<rparr>"

definition the_context :: "world \<Rightarrow> lvgl_tab5_context_t" where
  "the_context w = (case lvgl_handle w of Some h \<Rightarrow> lvgl_context h | None \<Rightarrow> lvgl_context handle_zero)"

section \<open>The LVGL integration: lvgl\_tab5duino.cpp\<close>

text \<open>
  The functions of lvgl\_tab5duino.cpp take the handle as an argument; here the handle is
  the one in the state, \<open>lvgl_handle\<close>. \<open>lvgl_tab5_stop\<close> is at lines 352 to 382 of the
  source, \<open>lvgl_tab5_deinit\<close> at lines 384 to 428.
\<close>

definition lvgl_tab5_stop :: "world \<Rightarrow> esp_err_t \<times> world" where
  "lvgl_tab5_stop w =
     (case lvgl_handle w of
        None \<Rightarrow> (ESP_ERR_INVALID_ARG, w)
      | Some handle \<Rightarrow>
          if \<not> started handle then (ESP_OK, w)
          else
            let w = emit (Log LOGI ''Stopping LVGL'' []) w;
                w = (if lvgl_task (lvgl_context handle) \<noteq> None
                     then set_context (\<lambda>c. c\<lparr>lvgl_task := None\<rparr>) (emit (Call ''vTaskDelete'' []) w)
                     else w);
                w = emit_when (lvgl_tick_timer w \<noteq> None) (Call ''esp_timer_stop'' []) w;
                w = emit (Call ''display_hal_stop'' []) w;
                w = emit (Call ''touch_hal_stop'' []) w;
                w = w\<lparr>lvgl_handle := map_option (\<lambda>h. h\<lparr>started := False\<rparr>) (lvgl_handle w)\<rparr>;
                w = emit (Log LOGI ''LVGL stopped'' []) w
            in (ESP_OK, w))"

text \<open>\<open>lvgl_tab5_deinit\<close> ends with \<open>free(handle)\<close>: the handle object is gone afterwards.\<close>

definition lvgl_tab5_deinit :: "world \<Rightarrow> world" where
  "lvgl_tab5_deinit w =
     (case lvgl_handle w of
        None \<Rightarrow> w
      | Some _ \<Rightarrow>
          let w = emit (Log LOGI ''Deinitializing LVGL'' []) w;
              w = snd (lvgl_tab5_stop w);
              w = (if lvgl_tick_timer w \<noteq> None
                   then (emit (Call ''esp_timer_delete'' []) w)\<lparr>lvgl_tick_timer := None\<rparr>
                   else w);
              c = the_context w;
              w = emit_when (display_hal c \<noteq> None) (Call ''display_hal_deinit'' []) w;
              w = emit_when (touch_hal c \<noteq> None) (Call ''touch_hal_deinit'' []) w;
              w = emit_when (buffer1 c \<noteq> None) (Call ''free'' []) w;
              w = emit_when (buffer2 c \<noteq> None) (Call ''free'' []) w;
              w = emit_when (draw_buffer c \<noteq> None) (Call ''free'' []) w;
              w = emit_when (lvgl_mutex c \<noteq> None) (Call ''vSemaphoreDelete'' []) w;
              w = (emit (Call ''free'' []) w)\<lparr>lvgl_handle := None\<rparr>
          in emit (Log LOGI ''LVGL deinitialized'' []) w)"

text \<open>The label \<open>cleanup\<close> of \<open>lvgl_tab5_init\<close>.\<close>

definition cleanup :: "esp_err_t \<Rightarrow> world \<Rightarrow> esp_err_t \<times> world" where
  "cleanup ret w = (ret, (lvgl_tab5_deinit w)\<lparr>lvgl_handle := None\<rparr>)"

text \<open>
  \<open>lvgl_tab5_init\<close> (lines 117 to 288), in three parts, last part first: from the
  call of \<open>lv_disp_draw_buf_init\<close> on (lines 227 to 280). The out-parameter \<open>handle\<close>
  of the C function is the address of the slot \<open>lvgl_handle\<close>, which is never \<open>NULL\<close>, so
  the function's first test is not taken.
\<close>

definition lvgl_tab5_init_drivers :: "env \<Rightarrow> world \<Rightarrow> esp_err_t \<times> world" where
  "lvgl_tab5_init_drivers env w =
     (let w = emit (Call ''lv_disp_draw_buf_init'' []) w;
          w = emit (Call ''lv_disp_drv_init'' []) w;
          w = emit (Call ''lv_disp_drv_register'' []) w;
          w = set_context (\<lambda>c. c\<lparr>display := lv_disp_drv_register env\<rparr>) w
      in if lv_disp_drv_register env = None then
           cleanup ESP_FAIL (emit (Log LOGE ''Failed to register LVGL display driver'' []) w)
         else
           let w = emit (Call ''lv_indev_drv_init'' []) w;
               w = emit (Call ''lv_indev_drv_register'' []) w;
               w = set_context (\<lambda>c. c\<lparr>touchpad := lv_indev_drv_register env\<rparr>) w
           in if lv_indev_drv_register env = None then
                cleanup ESP_FAIL
                  (emit (Log LOGE ''Failed to register LVGL input device driver'' []) w)
              else
                let w = emit (Call ''esp_timer_create'' []) w;
                    w = w\<lparr>lvgl_tick_timer := snd (esp_timer_create env)\<rparr>;
                    ret = fst (esp_timer_create env)
                in if ret \<noteq> ESP_OK then
                     cleanup ret
                       (emit (Log LOGE ''Failed to create LVGL tick timer: %s'' [ArgErr ret]) w)
                   else
                     (ESP_OK,
                      emit (Log LOGI ''LVGL Tab5duino integration initialized successfully'' [])
                        (set_context (\<lambda>c. c\<lparr>initialized := True\<rparr>) w)))"

text \<open>
  The allocation of the display buffers and of the draw buffer structure (lines 196 to
  225). The size in the log line is \<open>DISPLAY_WIDTH * buffer_lines * sizeof(lv_color_t)\<close>,
  with a width of 1280 and 16-bit colours.
\<close>

definition lvgl_tab5_init_buffers ::
  "env \<Rightarrow> lvgl_tab5_config_t \<Rightarrow> world \<Rightarrow> esp_err_t \<times> world" where
  "lvgl_tab5_init_buffers env cfg w =
     (let w = emit (Call ''heap_caps_malloc'' []) w;
          w = set_context (\<lambda>c. c\<lparr>buffer1 := heap_caps_malloc_buffer1 env\<rparr>) w;
          w = (if enable_double_buffer cfg
               then set_context (\<lambda>c. c\<lparr>buffer2 := heap_caps_malloc_buffer2 env\<rparr>)
                      (emit (Call ''heap_caps_malloc'' []) w)
               else w);
          w = (if use_psram_buffers cfg \<and> esp_psram_is_initialized env
               then emit (Log LOGI ''Allocated display buffers in PSRAM (%zu bytes each)''
                            [ArgD (1280 * uint (buffer_lines cfg) * 2)]) w
               else emit (Log LOGI ''Allocated display buffers in internal RAM (%zu bytes each)''
                            [ArgD (1280 * uint (buffer_lines cfg) * 2)]) w)
      in if buffer1 (the_context w) = None
            \<or> (enable_double_buffer cfg \<and> buffer2 (the_context w) = None) then
           cleanup ESP_ERR_NO_MEM (emit (Log LOGE ''Failed to allocate display buffers'' []) w)
         else
           let w = emit (Call ''malloc'' []) w;
               w = set_context (\<lambda>c. c\<lparr>draw_buffer := malloc_draw_buffer env\<rparr>) w
           in if malloc_draw_buffer env = None then
                cleanup ESP_ERR_NO_MEM
                  (emit (Log LOGE ''Failed to allocate draw buffer structure'' []) w)
              else lvgl_tab5_init_drivers env w)"

text \<open>The beginning: the handle, the mutex and the two HALs (lines 117 to 195).\<close>

definition lvgl_tab5_init ::
  "env \<Rightarrow> lvgl_tab5_config_t option \<Rightarrow> world \<Rightarrow> esp_err_t \<times> world" where
  "lvgl_tab5_init env cfg_opt w =
     (let w = emit (Log LOGI ''Initializing LVGL Tab5duino integration'' []) w
      in if \<not> calloc_handle env then
           (ESP_ERR_NO_MEM,
            emit (Log LOGE ''Failed to allocate handle'' []) (w\<lparr>lvgl_handle := None\<rparr>))
         else
           let cfg = (case cfg_opt of Some c \<Rightarrow> c | None \<Rightarrow> LVGL_TAB5_CONFIG_DEFAULT);
               w = w\<lparr>lvgl_handle := Some (handle_zero\<lparr>lvgl_config := cfg\<rparr>)\<rparr>;
               w = emit (Call ''lv_init'' []) w;
               w = emit (Call ''lv_log_register_print_cb'' []) w;
               w = emit (Call ''xSemaphoreCreateMutex'' []) w;
               w = set_context (\<lambda>c. c\<lparr>lvgl_mutex := xSemaphoreCreateMutex env\<rparr>) w
           in if xSemaphoreCreateMutex env = None then
                cleanup ESP_ERR_NO_MEM (emit (Log LOGE ''Failed to create LVGL mutex'' []) w)
              else
                let w = emit (Call ''display_hal_init'' []) w;
                    w = set_context (\<lambda>c. c\<lparr>display_hal := snd (display_hal_init env)\<rparr>) w;
                    ret = fst (display_hal_init env)
                in if ret \<noteq> ESP_OK then
                     cleanup ret
                       (emit (Log LOGE ''Failed to initialize display HAL: %s'' [ArgErr ret]) w)
                   else
                     let w = emit (Call ''touch_hal_init'' []) w;
                         w = set_context (\<lambda>c. c\<lparr>touch_hal := snd (touch_hal_init env)\<rparr>) w;
                         ret = fst (touch_hal_init env)
                     in if ret \<noteq> ESP_OK then
                          cleanup ret
                            (emit (Log LOGE ''Failed to initialize touch HAL: %s'' [ArgErr ret]) w)
                        else lvgl_tab5_init_buffers env cfg w)"

text \<open>\<open>lvgl_tab5_start\<close>, lines 290 to 350.\<close>

definition lvgl_tab5_start :: "env \<Rightarrow> world \<Rightarrow> esp_err_t \<times> world" where
  "lvgl_tab5_start env w =
     (case lvgl_handle w of
        None \<Rightarrow> (ESP_ERR_INVALID_STATE, w)
      | Some handle \<Rightarrow>
          if \<not> initialized (lvgl_context handle) then (ESP_ERR_INVALID_STATE, w)
          else if started handle then (ESP_OK, emit (Log LOGW ''LVGL already started'' []) w)
          else
            let w = emit (Log LOGI ''Starting LVGL task'' []) w;
                w = emit (Call ''display_hal_start'' []) w;
                ret = display_hal_start env
            in if ret \<noteq> ESP_OK then
                 (ret, emit (Log LOGE ''Failed to start display HAL: %s'' [ArgErr ret]) w)
               else
                 let w = emit (Call ''touch_hal_start'' []) w;
                     ret = touch_hal_start env
                 in if ret \<noteq> ESP_OK then
                      (ret, emit (Log LOGE ''Failed to start touch HAL: %s'' [ArgErr ret]) w)
                    else
                      let w = emit (Call ''esp_timer_start_periodic''
                                      [uint (tick_period_ms (lvgl_config handle)) * 1000]) w;
                          ret = esp_timer_start_periodic env
                      in if ret \<noteq> ESP_OK then
                           (ret, emit (Log LOGE ''Failed to start tick timer: %s'' [ArgErr ret]) w)
                         else
                           let w = emit (Call ''xTaskCreatePinnedToCore''
                                           [uint (task_stack_size (lvgl_config handle)),
                                            uint (task_priority (lvgl_config handle)),
                                            uint (task_core (lvgl_config handle))]) w
                           in (case xTaskCreatePinnedToCore_lvgl env of
                                None \<Rightarrow>
                                  (ESP_ERR_NO_MEM,
                                   emit (Call ''esp_timer_stop'' [])
                                     (emit (Log LOGE ''Failed to create LVGL task'' []) w))
                              | Some t \<Rightarrow>
                                  let w = set_context (\<lambda>c. c\<lparr>lvgl_task := Some t\<rparr>) w;
                                      w = w\<lparr>lvgl_handle :=
                                            map_option
                                              (\<lambda>h. h\<lparr>started := True,
                                                      last_perf_time := esp_timer_get_time env\<rparr>)
                                              (lvgl_handle w)\<rparr>;
                                      w = emit_when (ready_callback handle) Callback_ready w
                                  in (ESP_OK, emit (Log LOGI ''LVGL started successfully'' []) w)))"

subsection \<open>The callbacks registered with LVGL\<close>

text \<open>
  An area of LVGL (the fields \<open>x1\<close>, \<open>y1\<close>, \<open>x2\<close>, \<open>y2\<close> of \<open>lv_area_t\<close>). The flush callback
  computes width and height in \<open>uint16_t\<close>, and the HAL takes \<open>uint16_t\<close> coordinates.
\<close>

record lv_area_t =
  area_x1 :: int
  area_y1 :: int
  area_x2 :: int
  area_y2 :: int

definition u16 :: "int \<Rightarrow> int" where
  "u16 v = uint (word_of_int v :: 16 word)"

definition flush_ready :: event where
  "flush_ready = Call ''lv_disp_flush_ready'' []"

text \<open>\<open>display_flush_cb\<close>, lines 478 to 509.\<close>

definition display_flush_cb :: "env \<Rightarrow> lv_area_t \<Rightarrow> world \<Rightarrow> world" where
  "display_flush_cb env area w =
     (case lvgl_handle w of
        None \<Rightarrow> emit flush_ready w
      | Some handle \<Rightarrow>
          if display_hal (lvgl_context handle) = None then emit flush_ready w
          else
            let width = u16 (area_x2 area - area_x1 area + 1);
                height = u16 (area_y2 area - area_y1 area + 1);
                draw_bitmap = Call ''display_hal_draw_bitmap''
                                [u16 (area_x1 area), u16 (area_y1 area), width, height];
                w = (if enable_ppa_acceleration (lvgl_config handle) then
                       let w = emit (Call ''display_hal_ppa_blend''
                                       [u16 (area_x1 area), u16 (area_y1 area), 0, 0,
                                        width, height, 255]) w;
                           ret = display_hal_ppa_blend env
                       in if ret \<noteq> ESP_OK then
                            emit draw_bitmap
                              (emit (Log LOGW ''PPA blend failed, using software fallback'' []) w)
                          else w
                     else emit draw_bitmap w)
            in emit flush_ready w)"

text \<open>
  The data LVGL passes to the input-read callback. \<open>lv_coord_t\<close> is a 16-bit coordinate;
  the callback stores the 16 bits of the HAL's coordinate.
\<close>

datatype lv_indev_state_t = LV_INDEV_STATE_REL | LV_INDEV_STATE_PR

record lv_indev_data_t =
  point_x :: "16 word"
  point_y :: "16 word"
  indev_state :: lv_indev_state_t

text \<open>
  \<open>touch_point_is_valid\<close> of touch\_hal.h, lines 125 to 127; the callback passes the
  address of an array cell, which is not \<open>NULL\<close>.
\<close>

definition touch_point_is_valid :: "touch_point_t \<Rightarrow> bool" where
  "touch_point_is_valid point = (tp_is_valid point \<and> tp_pressure point > 0)"

text \<open>
  The loop of \<open>touchpad_read_cb\<close> over the local array \<open>points\<close>, from index \<open>i\<close>. A read
  beyond the array has no defined result in C: it is \<open>None\<close> here.
\<close>

function first_valid_point ::
  "touch_point_t list \<Rightarrow> nat \<Rightarrow> nat \<Rightarrow> lv_indev_data_t \<Rightarrow> lv_indev_data_t option" where
  "first_valid_point points point_count i data =
     (if i < point_count then
        (if i < length points then
           (if touch_point_is_valid (points ! i) then
              Some (data\<lparr>indev_state := LV_INDEV_STATE_PR,
                         point_x := tp_x (points ! i), point_y := tp_y (points ! i)\<rparr>)
            else first_valid_point points point_count (Suc i) data)
         else None)
      else Some (data\<lparr>indev_state := LV_INDEV_STATE_REL\<rparr>))"
  by pat_completeness auto
termination
  by (relation "measure (\<lambda>(points, point_count, i, data). point_count - i)") auto

text \<open>
  \<open>touchpad_read_cb\<close>, lines 521 to 549. The HAL fills the local array \<open>points\<close> and the
  count; the environment answers the status, the array after the call and the count.
\<close>

definition touchpad_read_cb ::
  "env \<Rightarrow> lv_indev_data_t \<Rightarrow> world \<Rightarrow> lv_indev_data_t option \<times> world" where
  "touchpad_read_cb env data w =
     (case lvgl_handle w of
        None \<Rightarrow> (Some (data\<lparr>indev_state := LV_INDEV_STATE_REL\<rparr>), w)
      | Some handle \<Rightarrow>
          if touch_hal (lvgl_context handle) = None then
            (Some (data\<lparr>indev_state := LV_INDEV_STATE_REL\<rparr>), w)
          else
            let w = emit (Call ''touch_hal_read_points'' []) w;
                (ret, points, point_count) = touch_hal_read_points env
            in if ret \<noteq> ESP_OK \<or> point_count = 0 then
                 (Some (data\<lparr>indev_state := LV_INDEV_STATE_REL\<rparr>), w)
               else (first_valid_point points (unat point_count) 0 data, w))"

section \<open>The framework controller: Tab5duino.cpp\<close>

text \<open>The name \<open>subsystem_names[i]\<close> as an argument of a log line.\<close>

definition name_of :: "nat \<Rightarrow> log_arg" where
  "name_of i = ArgS (subsystem_names ! i)"

text \<open>
  The \<open>switch\<close> of \<open>tab5duino_init_subsystem\<close>, lines 249 to 300, for the subsystem with
  enumerator \<open>i\<close>. In the seven cases below \<open>TAB5_SUBSYSTEM_LVGL\<close> the call of the driver
  is written as a comment (for instance \<open>// ret = display_init();\<close>), so these cases do
  nothing and \<open>ret\<close> stays \<open>ESP_OK\<close>.
\<close>

definition subsystem_bringup :: "env \<Rightarrow> nat \<Rightarrow> world \<Rightarrow> esp_err_t \<times> world" where
  "subsystem_bringup env i w =
     (if i < TAB5_SUBSYSTEM_LVGL then (ESP_OK, w)
      else if i = TAB5_SUBSYSTEM_LVGL then
        (let (ret, w) = lvgl_tab5_init env (Some LVGL_TAB5_CONFIG_DEFAULT) w
         in if ret = ESP_OK then
              (let (ret, w) = lvgl_tab5_start env w
               in (ret, emit_when (ret = ESP_OK \<and> on_lvgl_ready_bound env) Hook_on_lvgl_ready w))
            else (ret, w))
      else (ESP_ERR_NOT_SUPPORTED, w))"

text \<open>
  \<open>tab5duino_init_subsystem\<close>, Tab5duino.cpp lines 233 to 318. \<open>init_subsystem_at\<close> is
  the function from its second test on (lines 238 to 317), for an identifier whose value
  \<open>i\<close> is an index inside the array. The function itself starts with the test
  \<open>subsystem >= TAB5_SUBSYSTEM_COUNT\<close>; an identifier that is negative as an \<open>int\<close> passes
  it, and the next statement reads \<open>subsystem_states\<close> at a negative index: the result is
  then \<open>None\<close>.
\<close>

definition init_subsystem_at :: "env \<Rightarrow> nat \<Rightarrow> world \<Rightarrow> esp_err_t \<times> world" where
  "init_subsystem_at env i w =
     (if state_of w i \<noteq> TAB5_SUBSYSTEM_UNINITIALIZED then
        (ESP_OK, emit (Log LOGW ''%s subsystem already initialized'' [name_of i]) w)
      else
        let w = emit (Log LOGI ''Initializing %s subsystem'' [name_of i]) w;
            w = set_state i TAB5_SUBSYSTEM_INITIALIZING w;
            (ret, w) = subsystem_bringup env i w
        in if ret = ESP_OK then
             (ret,
              emit (Log LOGI ''%s subsystem initialized successfully'' [name_of i])
                (set_state i TAB5_SUBSYSTEM_READY w))
           else
             let w = set_state i TAB5_SUBSYSTEM_ERROR w;
                 w = emit (Log LOGE ''Failed to initialize %s subsystem: %s''
                             [name_of i, ArgErr ret]) w
             in (ret,
                 emit_when (on_subsystem_error_bound env) (Hook_on_subsystem_error i ret) w))"

definition tab5duino_init_subsystem ::
  "env \<Rightarrow> tab5_subsystem_t \<Rightarrow> world \<Rightarrow> (esp_err_t \<times> world) option" where
  "tab5duino_init_subsystem env subsystem w =
     (if sint subsystem \<ge> int TAB5_SUBSYSTEM_COUNT then Some (ESP_ERR_INVALID_ARG, w)
      else if sint subsystem < 0 then None
      else Some (init_subsystem_at env (unat subsystem) w))"

text \<open>
  \<open>tab5duino_deinit_subsystem\<close>, lines 320 to 360, in the same way. Every case of its
  \<open>switch\<close> is a comment, and there is no case for LVGL: no teardown is called.
\<close>

definition deinit_subsystem_at :: "nat \<Rightarrow> world \<Rightarrow> esp_err_t \<times> world" where
  "deinit_subsystem_at i w =
     (if state_of w i = TAB5_SUBSYSTEM_UNINITIALIZED then (ESP_OK, w)
      else
        let w = emit (Log LOGI ''Deinitializing %s subsystem'' [name_of i]) w
        in (ESP_OK, set_state i TAB5_SUBSYSTEM_UNINITIALIZED w))"

definition tab5duino_deinit_subsystem ::
  "tab5_subsystem_t \<Rightarrow> world \<Rightarrow> (esp_err_t \<times> world) option" where
  "tab5duino_deinit_subsystem subsystem w =
     (if sint subsystem \<ge> int TAB5_SUBSYSTEM_COUNT then Some (ESP_ERR_INVALID_ARG, w)
      else if sint subsystem < 0 then None
      else Some (deinit_subsystem_at (unat subsystem) w))"

text \<open>
  \<open>init_hardware_subsystems\<close>, lines 186 to 221: one step per subsystem, each guarded by
  its flag and followed by \<open>if (ret != ESP_OK) return ret;\<close>. \<open>init_step\<close> is one such
  step, for the enumerator \<open>subsystem\<close>, and \<open>rest\<close> the steps after it.
\<close>

definition init_step ::
  "env \<Rightarrow> bool \<Rightarrow> nat \<Rightarrow> (world \<Rightarrow> (esp_err_t \<times> world) option) \<Rightarrow> world
     \<Rightarrow> (esp_err_t \<times> world) option"
  where
  "init_step env enabled subsystem rest w =
     (if enabled then
        (case tab5duino_init_subsystem env (word_of_nat subsystem) w of
           None \<Rightarrow> None
         | Some (ret, w) \<Rightarrow> if ret \<noteq> ESP_OK then Some (ret, w) else rest w)
      else rest w)"

definition init_hardware_subsystems :: "env \<Rightarrow> world \<Rightarrow> (esp_err_t \<times> world) option" where
  "init_hardware_subsystems env w =
     (let cfg = config (g_tab5duino_instance w)
      in (init_step env (auto_init_display cfg) TAB5_SUBSYSTEM_DISPLAY
         (init_step env (auto_init_touch cfg) TAB5_SUBSYSTEM_TOUCH
         (init_step env (auto_init_imu cfg) TAB5_SUBSYSTEM_IMU
         (init_step env (auto_init_audio cfg) TAB5_SUBSYSTEM_AUDIO
         (init_step env True TAB5_SUBSYSTEM_POWER
         (init_step env (auto_init_lvgl cfg) TAB5_SUBSYSTEM_LVGL
         (\<lambda>w. Some (ESP_OK, w)))))))) w)"



text \<open>
  \<open>tab5duino_init\<close>, lines 45 to 106. The loop that resets the states runs \<open>i\<close> from 0 to
  \<open>TAB5_SUBSYSTEM_COUNT - 1\<close>. The result is \<open>None\<close> only if that of
  \<open>init_hardware_subsystems\<close> is.
\<close>

definition tab5duino_init ::
  "env \<Rightarrow> tab5duino_config_t option \<Rightarrow> world \<Rightarrow> (esp_err_t \<times> world) option" where
  "tab5duino_init env cfg_opt w =
     (if framework_initialized (g_tab5duino_instance w) then
        Some (ESP_OK, emit (Log LOGW ''Framework already initialized'' []) w)
      else
        let w = emit (Log LOGI ''Initializing Tab5duino Framework v%d.%d.%d''
                        [ArgD 1, ArgD 0, ArgD 0]) w;
            cfg = (case cfg_opt of Some c \<Rightarrow> c | None \<Rightarrow> TAB5DUINO_CONFIG_DEFAULT);
            w = w\<lparr>g_tab5duino_instance := (g_tab5duino_instance w)
                     \<lparr>config := cfg, boot_time_us := esp_timer_get_time env\<rparr>\<rparr>;
            w = fold (\<lambda>i. set_state i TAB5_SUBSYSTEM_UNINITIALIZED) [0..<TAB5_SUBSYSTEM_COUNT] w;
            w = (if enable_psram cfg then
                   (if esp_psram_is_initialized env
                    then emit (Log LOGI ''PSRAM initialized: %d MB''
                                 [ArgD (int (esp_psram_get_size env div (1024 * 1024)))]) w
                    else emit (Log LOGW ''PSRAM not available'' []) w)
                 else w);
            w = (if enable_usb_serial cfg then
                   (let w = emit (Call ''usb_serial_jtag_driver_install'' []) w;
                        ret = usb_serial_jtag_driver_install env
                    in emit_when (ret \<noteq> ESP_OK)
                         (Log LOGW ''Failed to initialize USB Serial: %s'' [ArgErr ret]) w)
                 else w)
        in (case init_hardware_subsystems env w of
              None \<Rightarrow> None
            | Some (ret, w) \<Rightarrow>
                if ret \<noteq> ESP_OK then
                  Some (ret, emit (Log LOGE ''Failed to initialize hardware subsystems: %s''
                                     [ArgErr ret]) w)
                else
                  let w = w\<lparr>g_tab5duino_instance := (g_tab5duino_instance w)
                              \<lparr>framework_initialized := True\<rparr>\<rparr>;
                      w = emit_when (on_framework_init_bound env) Hook_on_framework_init w
                  in Some (ESP_OK, emit (Log LOGI ''Framework initialization complete'' []) w)))"

text \<open>
  \<open>tab5duino_start\<close>, lines 109 to 143. The new task runs \<open>loop_task\<close> on its own; what
  it does later is not part of the call.
\<close>

definition tab5duino_start :: "env \<Rightarrow> world \<Rightarrow> esp_err_t \<times> world" where
  "tab5duino_start env w =
     (if \<not> framework_initialized (g_tab5duino_instance w) then
        (ESP_ERR_INVALID_STATE, emit (Log LOGE ''Framework not initialized'' []) w)
      else if loop_task_handle (g_tab5duino_instance w) \<noteq> None then
        (ESP_OK, emit (Log LOGW ''Framework already started'' []) w)
      else
        let cfg = config (g_tab5duino_instance w);
            w = emit (Call ''xTaskCreatePinnedToCore''
                        [uint (loop_stack_size cfg), uint (loop_task_priority cfg),
                         uint (loop_task_core cfg)]) w
        in (case xTaskCreatePinnedToCore_loop env of
              None \<Rightarrow> (ESP_ERR_NO_MEM, emit (Log LOGE ''Failed to create loop task'' []) w)
            | Some t \<Rightarrow>
                let w = w\<lparr>g_tab5duino_instance := (g_tab5duino_instance w)
                            \<lparr>loop_task_handle := Some t\<rparr>\<rparr>;
                    w = emit_when (on_framework_ready_bound env) Hook_on_framework_ready w
                in (ESP_OK, emit (Log LOGI ''Framework started'' []) w)))"



section \<open>Reading the trace\<close>

text \<open>
  The events that a call adds to the trace, given the state before and after it.
\<close>

definition emitted :: "world \<Rightarrow> world \<Rightarrow> event list" where
  "emitted w w' = drop (length (trace w)) (trace w')"

text \<open>
  The four log lines of \<open>tab5duino_init_subsystem\<close> and \<open>tab5duino_deinit_subsystem\<close>
  that tell what happens to a subsystem: its bring-up is attempted, it is ready, its
  bring-up failed, it is deinitialised.
\<close>

definition init_log :: "nat \<Rightarrow> event" where
  "init_log s = Log LOGI ''Initializing %s subsystem'' [name_of s]"

definition ready_log :: "nat \<Rightarrow> event" where
  "ready_log s = Log LOGI ''%s subsystem initialized successfully'' [name_of s]"

definition failed_log :: "nat \<Rightarrow> esp_err_t \<Rightarrow> event" where
  "failed_log s ret = Log LOGE ''Failed to initialize %s subsystem: %s'' [name_of s, ArgErr ret]"

definition deinit_log :: "nat \<Rightarrow> event" where
  "deinit_log s = Log LOGI ''Deinitializing %s subsystem'' [name_of s]"

text \<open>
  Recognisers for these lines: by their format string, whatever the subsystem.
  \<open>is_subsystem_log\<close> holds of the four lines and of a call of the error hook; no other
  part of the framework emits such an event.
\<close>

definition is_init_log :: "event \<Rightarrow> bool" where
  "is_init_log e =
     (case e of Log lvl fmt args \<Rightarrow> fmt = ''Initializing %s subsystem'' | _ \<Rightarrow> False)"

definition is_deinit_log :: "event \<Rightarrow> bool" where
  "is_deinit_log e =
     (case e of Log lvl fmt args \<Rightarrow> fmt = ''Deinitializing %s subsystem'' | _ \<Rightarrow> False)"

definition is_subsystem_log :: "event \<Rightarrow> bool" where
  "is_subsystem_log e =
     (case e of
        Log lvl fmt args \<Rightarrow>
          fmt = ''Initializing %s subsystem'' \<or> fmt = ''%s subsystem initialized successfully''
          \<or> fmt = ''Failed to initialize %s subsystem: %s''
          \<or> fmt = ''Deinitializing %s subsystem''
      | Hook_on_subsystem_error s r \<Rightarrow> True
      | _ \<Rightarrow> False)"

text \<open>
  \<open>before a b evs\<close>: the event \<open>b\<close> occurs in \<open>evs\<close>, and \<open>a\<close> occurs earlier than the first
  \<open>b\<close>.
\<close>

definition before :: "event \<Rightarrow> event \<Rightarrow> event list \<Rightarrow> bool" where
  "before a b evs = (b \<in> set evs \<and> a \<in> set (takeWhile (\<lambda>e. e \<noteq> b) evs))"

text \<open>
  \<open>quiet_ext w w'\<close>: the trace of \<open>w'\<close> extends the trace of \<open>w\<close> by events none of which
  is a subsystem-level event.
\<close>

definition quiet_ext :: "world \<Rightarrow> world \<Rightarrow> bool" where
  "quiet_ext w w' = (\<exists>evs. trace w' = trace w @ evs \<and> filter is_subsystem_log evs = [])"

section \<open>What a run of the init sequence leaves behind\<close>

text \<open>
  The configuration that \<open>tab5duino_init\<close> copies into the instance, and the condition
  under which \<open>init_hardware_subsystems\<close> attempts a subsystem: its auto-init flag, none
  for the power subsystem, and never for USB and WiFi.
\<close>

definition effective_config :: "tab5duino_config_t option \<Rightarrow> tab5duino_config_t" where
  "effective_config cfg_opt = (case cfg_opt of Some c \<Rightarrow> c | None \<Rightarrow> TAB5DUINO_CONFIG_DEFAULT)"

definition auto_enabled :: "tab5duino_config_t \<Rightarrow> nat \<Rightarrow> bool" where
  "auto_enabled cfg s =
     (s = TAB5_SUBSYSTEM_DISPLAY \<and> auto_init_display cfg
      \<or> s = TAB5_SUBSYSTEM_TOUCH \<and> auto_init_touch cfg
      \<or> s = TAB5_SUBSYSTEM_IMU \<and> auto_init_imu cfg
      \<or> s = TAB5_SUBSYSTEM_AUDIO \<and> auto_init_audio cfg
      \<or> s = TAB5_SUBSYSTEM_POWER
      \<or> s = TAB5_SUBSYSTEM_LVGL \<and> auto_init_lvgl cfg)"

text \<open>
  When the subsystems below \<open>k\<close> have been brought up without a failure, the
  subsystem-level events so far are \<open>ready_events cfg k\<close> and the states are
  \<open>ready_states cfg k\<close>. A failed attempt on \<open>s\<close> with status \<open>ret\<close> adds the events
  \<open>init_log s # init_events env s ret\<close>.
\<close>

definition init_events :: "env \<Rightarrow> nat \<Rightarrow> esp_err_t \<Rightarrow> event list" where
  "init_events env s ret =
     (if ret = ESP_OK then [ready_log s]
      else failed_log s ret # (if on_subsystem_error_bound env then [Hook_on_subsystem_error s ret] else []))"

definition ready_events :: "tab5duino_config_t \<Rightarrow> nat \<Rightarrow> event list" where
  "ready_events cfg k = concat (map (\<lambda>s. [init_log s, ready_log s]) (filter (auto_enabled cfg) [0..<k]))"

definition ready_states :: "tab5duino_config_t \<Rightarrow> nat \<Rightarrow> tab5_subsystem_state_t list" where
  "ready_states cfg k =
     map (\<lambda>s. if s < k \<and> auto_enabled cfg s then TAB5_SUBSYSTEM_READY
              else TAB5_SUBSYSTEM_UNINITIALIZED) [0..<TAB5_SUBSYSTEM_COUNT]"

text \<open>
  The two ways the sequence can stand, relative to the state \<open>w0\<close> in which it started:
  \<open>reached\<close>, every enabled subsystem below \<open>k\<close> is ready and nothing else happened;
  \<open>failed_at\<close>, the bring-up of the enabled subsystem \<open>k\<close> failed with status \<open>r\<close> after
  the enabled ones below \<open>k\<close> succeeded. \<open>outcome\<close> is what
  \<open>init_hardware_subsystems\<close> returns: success with everything reached, or a failure;
  \<open>returns_outcome\<close> says that a call returns, and with such a result.
\<close>

definition brought_up :: "env \<Rightarrow> tab5duino_config_t \<Rightarrow> nat \<Rightarrow> bool" where
  "brought_up env cfg k =
     (\<forall>s<k. auto_enabled cfg s \<longrightarrow> (\<exists>ws. fst (subsystem_bringup env s ws) = ESP_OK))"

definition reached :: "env \<Rightarrow> world \<Rightarrow> nat \<Rightarrow> world \<Rightarrow> bool" where
  "reached env w0 k w =
     (brought_up env (config (g_tab5duino_instance w0)) k \<and> g_tab5duino_instance w = (g_tab5duino_instance w0)
        \<lparr>subsystem_states := ready_states (config (g_tab5duino_instance w0)) k\<rparr>
      \<and> (\<exists>evs. trace w = trace w0 @ evs
             \<and> filter is_subsystem_log evs = ready_events (config (g_tab5duino_instance w0)) k))"

definition failed_at :: "env \<Rightarrow> world \<Rightarrow> nat \<Rightarrow> esp_err_t \<Rightarrow> world \<Rightarrow> bool" where
  "failed_at env w0 k r w =
     (k < TAB5_SUBSYSTEM_COUNT \<and> auto_enabled (config (g_tab5duino_instance w0)) k \<and> r \<noteq> ESP_OK
      \<and> (\<exists>wk. r = fst (subsystem_bringup env k wk))
      \<and> brought_up env (config (g_tab5duino_instance w0)) k
      \<and> g_tab5duino_instance w = (g_tab5duino_instance w0)
          \<lparr>subsystem_states :=
             (ready_states (config (g_tab5duino_instance w0)) k)[k := TAB5_SUBSYSTEM_ERROR]\<rparr>
      \<and> (\<exists>evs. trace w = trace w0 @ evs
             \<and> filter is_subsystem_log evs
                 = ready_events (config (g_tab5duino_instance w0)) k
                   @ init_log k # init_events env k r))"

definition outcome :: "env \<Rightarrow> world \<Rightarrow> esp_err_t \<times> world \<Rightarrow> bool" where
  "outcome env w0 rw =
     ((fst rw = ESP_OK \<and> reached env w0 TAB5_SUBSYSTEM_COUNT (snd rw))
      \<or> (\<exists>k. failed_at env w0 k (fst rw) (snd rw)))"

definition returns_outcome :: "env \<Rightarrow> world \<Rightarrow> (esp_err_t \<times> world) option \<Rightarrow> bool" where
  "returns_outcome env w0 x = (\<exists>rw. x = Some rw \<and> outcome env w0 rw)"

text \<open>
  The part of \<open>tab5duino_init\<close> before \<open>init_hardware_subsystems\<close>, and the instance it
  sets up (configuration copied, boot time stamped, every state reset).
\<close>

definition init_preamble :: "env \<Rightarrow> tab5duino_config_t option \<Rightarrow> world \<Rightarrow> world" where
  "init_preamble env cfg_opt w =
     (let w = emit (Log LOGI ''Initializing Tab5duino Framework v%d.%d.%d''
                        [ArgD 1, ArgD 0, ArgD 0]) w;
          cfg = (case cfg_opt of Some c \<Rightarrow> c | None \<Rightarrow> TAB5DUINO_CONFIG_DEFAULT);
          w = w\<lparr>g_tab5duino_instance := (g_tab5duino_instance w)
                   \<lparr>config := cfg, boot_time_us := esp_timer_get_time env\<rparr>\<rparr>;
          w = fold (\<lambda>i. set_state i TAB5_SUBSYSTEM_UNINITIALIZED) [0..<TAB5_SUBSYSTEM_COUNT] w;
          w = (if enable_psram cfg then
                 (if esp_psram_is_initialized env
                  then emit (Log LOGI ''PSRAM initialized: %d MB''
                               [ArgD (int (esp_psram_get_size env div (1024 * 1024)))]) w
                  else emit (Log LOGW ''PSRAM not available'' []) w)
               else w)
      in (if enable_usb_serial cfg then
            (let w = emit (Call ''usb_serial_jtag_driver_install'' []) w;
                 ret = usb_serial_jtag_driver_install env
             in emit_when (ret \<noteq> ESP_OK)
                  (Log LOGW ''Failed to initialize USB Serial: %s'' [ArgErr ret]) w)
          else w))"

definition init_base :: "env \<Rightarrow> tab5duino_config_t option \<Rightarrow> world \<Rightarrow> world" where
  "init_base env cfg_opt w =
     w\<lparr>g_tab5duino_instance := (g_tab5duino_instance w)
         \<lparr>config := effective_config cfg_opt, boot_time_us := esp_timer_get_time env,
          subsystem_states := replicate TAB5_SUBSYSTEM_COUNT TAB5_SUBSYSTEM_UNINITIALIZED\<rparr>\<rparr>"

text \<open>
  The result of a call of \<open>tab5duino_init\<close> and of \<open>tab5duino_deinit\<close>. Both calls
  return: the identifiers they pass on are enumerators (lemmas \<open>tab5duino_init_returns\<close>
  and \<open>tab5duino_deinit_returns\<close> below).
\<close>

definition init_result :: "env \<Rightarrow> tab5duino_config_t option \<Rightarrow> world \<Rightarrow> esp_err_t \<times> world" where
  "init_result env cfg_opt w = the (tab5duino_init env cfg_opt w)"



text \<open>
  A step of \<open>init_hardware_subsystems\<close> for a subsystem below LVGL, whose bring-up does
  nothing: when enabled it logs the attempt, marks the subsystem \<open>READY\<close> and logs the
  success. \<open>before_lvgl\<close> is the state after the five such steps, in which the step
  for LVGL starts. \<open>timer_delete\<close> is the call that deletes the tick timer.
\<close>

definition placeholder_step :: "bool \<Rightarrow> nat \<Rightarrow> world \<Rightarrow> world" where
  "placeholder_step enabled i w =
     (if enabled
      then emit (ready_log i) (set_state i TAB5_SUBSYSTEM_READY (emit (init_log i) w))
      else w)"

definition before_lvgl :: "world \<Rightarrow> world" where
  "before_lvgl w =
     (let cfg = config (g_tab5duino_instance w)
      in placeholder_step True TAB5_SUBSYSTEM_POWER
          (placeholder_step (auto_init_audio cfg) TAB5_SUBSYSTEM_AUDIO
            (placeholder_step (auto_init_imu cfg) TAB5_SUBSYSTEM_IMU
              (placeholder_step (auto_init_touch cfg) TAB5_SUBSYSTEM_TOUCH
                (placeholder_step (auto_init_display cfg) TAB5_SUBSYSTEM_DISPLAY w)))))"


text \<open>
  The status of each stage of the LVGL bring-up as a function of the environment alone,
  and with it the status of the bring-up of any subsystem. \<open>started_of\<close> reads the
  \<open>started\<close> flag through the handle pointer.
\<close>

definition drivers_status :: "env \<Rightarrow> esp_err_t" where
  "drivers_status env =
     (if lv_disp_drv_register env = None then ESP_FAIL
      else if lv_indev_drv_register env = None then ESP_FAIL
      else fst (esp_timer_create env))"

definition buffers_status :: "env \<Rightarrow> lvgl_tab5_config_t \<Rightarrow> esp_err_t" where
  "buffers_status env cfg =
     (if heap_caps_malloc_buffer1 env = None
         \<or> (enable_double_buffer cfg \<and> heap_caps_malloc_buffer2 env = None) then ESP_ERR_NO_MEM
      else if malloc_draw_buffer env = None then ESP_ERR_NO_MEM
      else drivers_status env)"

definition init_status :: "env \<Rightarrow> lvgl_tab5_config_t \<Rightarrow> esp_err_t" where
  "init_status env cfg =
     (if \<not> calloc_handle env then ESP_ERR_NO_MEM
      else if xSemaphoreCreateMutex env = None then ESP_ERR_NO_MEM
      else if fst (display_hal_init env) \<noteq> ESP_OK then fst (display_hal_init env)
      else if fst (touch_hal_init env) \<noteq> ESP_OK then fst (touch_hal_init env)
      else buffers_status env cfg)"

definition start_status :: "env \<Rightarrow> esp_err_t" where
  "start_status env =
     (if display_hal_start env \<noteq> ESP_OK then display_hal_start env
      else if touch_hal_start env \<noteq> ESP_OK then touch_hal_start env
      else if esp_timer_start_periodic env \<noteq> ESP_OK then esp_timer_start_periodic env
      else if xTaskCreatePinnedToCore_lvgl env = None then ESP_ERR_NO_MEM
      else ESP_OK)"

definition bringup_status :: "env \<Rightarrow> nat \<Rightarrow> esp_err_t" where
  "bringup_status env s =
     (if s < TAB5_SUBSYSTEM_LVGL then ESP_OK
      else if s = TAB5_SUBSYSTEM_LVGL then
        (if init_status env LVGL_TAB5_CONFIG_DEFAULT = ESP_OK then start_status env
         else init_status env LVGL_TAB5_CONFIG_DEFAULT)
      else ESP_ERR_NOT_SUPPORTED)"

definition started_of :: "world \<Rightarrow> bool option" where
  "started_of w = map_option started (lvgl_handle w)"

text \<open>
  What the input-read callback stores in the data of LVGL.
\<close>

definition released :: "lv_indev_data_t \<Rightarrow> lv_indev_data_t" where
  "released data = data\<lparr>indev_state := LV_INDEV_STATE_REL\<rparr>"

definition pressed_at :: "touch_point_t \<Rightarrow> lv_indev_data_t \<Rightarrow> lv_indev_data_t" where
  "pressed_at p data =
     data\<lparr>indev_state := LV_INDEV_STATE_PR, point_x := tp_x p, point_y := tp_y p\<rparr>"

section \<open>Concrete environments and states\<close>

text \<open>
  An environment where every external call succeeds and every hook is bound, and the
  state before the first call of the framework: the instance is zero-initialised, the
  static pointers are \<open>NULL\<close>.
\<close>

definition env_ok :: env where
  "env_ok =
     \<lparr> esp_timer_get_time = 1000, esp_psram_is_initialized = True,
       esp_psram_get_size = 33554432, usb_serial_jtag_driver_install = ESP_OK,
       xTaskCreatePinnedToCore_loop = Some 1, on_framework_init_bound = True,
       on_framework_ready_bound = True, on_subsystem_error_bound = True,
       on_lvgl_ready_bound = True, calloc_handle = True,
       xSemaphoreCreateMutex = Some 2, display_hal_init = (ESP_OK, Some 3),
       touch_hal_init = (ESP_OK, Some 4), heap_caps_malloc_buffer1 = Some 5,
       heap_caps_malloc_buffer2 = Some 6, malloc_draw_buffer = Some 7,
       lv_disp_drv_register = Some 8, lv_indev_drv_register = Some 9,
       esp_timer_create = (ESP_OK, Some 10), display_hal_start = ESP_OK,
       touch_hal_start = ESP_OK, esp_timer_start_periodic = ESP_OK,
       xTaskCreatePinnedToCore_lvgl = Some 11, display_hal_ppa_blend = ESP_OK,
       touch_hal_read_points = (ESP_OK, [], 0) \<rparr>"

definition world_boot :: world where
  "world_boot = \<lparr> g_tab5duino_instance = instance_zero, lvgl_handle = None,
                  lvgl_tick_timer = None, trace = [] \<rparr>"

text \<open>
  An instance with subsystems in each of the four states.
\<close>

definition instance_mixed :: tab5duino_instance_t where
  "instance_mixed = instance_zero\<lparr>subsystem_states :=
     [TAB5_SUBSYSTEM_READY, TAB5_SUBSYSTEM_ERROR, TAB5_SUBSYSTEM_UNINITIALIZED,
      TAB5_SUBSYSTEM_INITIALIZING, TAB5_SUBSYSTEM_READY, TAB5_SUBSYSTEM_UNINITIALIZED,
      TAB5_SUBSYSTEM_UNINITIALIZED, TAB5_SUBSYSTEM_READY]\<rparr>"

definition world_mixed :: world where
  "world_mixed = world_boot\<lparr>g_tab5duino_instance := instance_mixed\<rparr>"

text \<open>
  A configuration with every auto-init flag set; one with the display flag clear; an
  environment where only \<open>display_hal_init\<close> fails, which \<open>lvgl_tab5_init\<close> calls; one
  where the loop task cannot be created.
\<close>

definition config_all :: tab5duino_config_t where
  "config_all = TAB5DUINO_CONFIG_DEFAULT\<lparr>auto_init_audio := True\<rparr>"

definition config_no_display :: tab5duino_config_t where
  "config_no_display = TAB5DUINO_CONFIG_DEFAULT\<lparr>auto_init_display := False\<rparr>"

definition env_display_fails :: env where
  "env_display_fails = env_ok\<lparr>display_hal_init := (ESP_FAIL, None)\<rparr>"

definition env_no_task :: env where
  "env_no_task = env_ok\<lparr>xTaskCreatePinnedToCore_loop := None\<rparr>"

text \<open>
  The state after a default init at boot, and after a start; the LVGL integration
  allocated, initialised and started on its own.
\<close>

definition world_initialized :: world where
  "world_initialized = snd (init_result env_ok None world_boot)"

definition world_started :: world where
  "world_started = snd (tab5duino_start env_ok world_initialized)"

definition lvgl_allocated :: world where
  "lvgl_allocated = world_boot\<lparr>lvgl_handle := Some handle_zero\<rparr>"

definition lvgl_initialized :: world where
  "lvgl_initialized = snd (lvgl_tab5_init env_ok None world_boot)"

definition lvgl_started :: world where
  "lvgl_started = snd (lvgl_tab5_start env_ok lvgl_initialized)"

text \<open>
  A poll of the touch HAL that reports two points, the first with pressure zero, the
  second a real contact; a handle with a touch HAL; zeroed input data.
\<close>

definition touch_points :: "touch_point_t list" where
  "touch_points =
     \<lparr>tp_x = 10, tp_y = 20, tp_pressure = 0, tp_size = 1, tp_id = 0, tp_is_valid = True\<rparr>
     # \<lparr>tp_x = 100, tp_y = 200, tp_pressure = 50, tp_size = 3, tp_id = 1, tp_is_valid = True\<rparr>
     # replicate 8
         \<lparr>tp_x = 0, tp_y = 0, tp_pressure = 0, tp_size = 0, tp_id = 0, tp_is_valid = False\<rparr>"

definition env_touch :: env where
  "env_touch = env_ok\<lparr>touch_hal_read_points := (ESP_OK, touch_points, 2)\<rparr>"

definition world_touch :: world where
  "world_touch =
     world_boot\<lparr>lvgl_handle :=
       Some (handle_zero\<lparr>lvgl_context := (lvgl_context handle_zero)\<lparr>touch_hal := Some 4\<rparr>\<rparr>)\<rparr>"

definition data_zero :: lv_indev_data_t where
  "data_zero = \<lparr>point_x = 0, point_y = 0, indev_state = LV_INDEV_STATE_REL\<rparr>"

section \<open>Basic facts\<close>

lemmas esp_err_defs =
  ESP_OK_def ESP_FAIL_def ESP_ERR_NO_MEM_def ESP_ERR_INVALID_ARG_def
  ESP_ERR_INVALID_STATE_def ESP_ERR_NOT_SUPPORTED_def

lemmas subsystem_defs =
  TAB5_SUBSYSTEM_DISPLAY_def TAB5_SUBSYSTEM_TOUCH_def TAB5_SUBSYSTEM_IMU_def
  TAB5_SUBSYSTEM_AUDIO_def TAB5_SUBSYSTEM_POWER_def TAB5_SUBSYSTEM_USB_def
  TAB5_SUBSYSTEM_WIFI_def TAB5_SUBSYSTEM_LVGL_def TAB5_SUBSYSTEM_COUNT_def

lemma trace_emit [simp]: "trace (emit e w) = trace w @ [e]"
  by (simp add: emit_def)

lemma instance_emit [simp]: "g_tab5duino_instance (emit e w) = g_tab5duino_instance w"
  by (simp add: emit_def)

lemma handle_emit [simp]: "lvgl_handle (emit e w) = lvgl_handle w"
  by (simp add: emit_def)

lemma timer_emit [simp]: "lvgl_tick_timer (emit e w) = lvgl_tick_timer w"
  by (simp add: emit_def)

lemma trace_emit_when [simp]: "trace (emit_when c e w) = trace w @ (if c then [e] else [])"
  by (simp add: emit_when_def)

lemma instance_emit_when [simp]:
  "g_tab5duino_instance (emit_when c e w) = g_tab5duino_instance w"
  by (simp add: emit_when_def)

lemma handle_emit_when [simp]: "lvgl_handle (emit_when c e w) = lvgl_handle w"
  by (simp add: emit_when_def)

lemma timer_emit_when [simp]: "lvgl_tick_timer (emit_when c e w) = lvgl_tick_timer w"
  by (simp add: emit_when_def)

lemma state_of_emit [simp]: "state_of (emit e w) s = state_of w s"
  by (simp add: state_of_def)

lemma state_of_emit_when [simp]: "state_of (emit_when c e w) s = state_of w s"
  by (simp add: state_of_def)

lemma trace_set_state [simp]: "trace (set_state s v w) = trace w"
  by (simp add: set_state_def)

lemma state_of_set_state:
  "state_of (set_state s v w) s' =
     (if s' = s \<and> s < length (subsystem_states (g_tab5duino_instance w)) then v
      else state_of w s')"
  by (auto simp: set_state_def state_of_def nth_list_update list_update_beyond)

lemma emitted_self [simp]: "emitted w w = []"
  by (simp add: emitted_def)

lemma emitted_append: "trace w' = trace w @ evs \<Longrightarrow> emitted w w' = evs"
  by (simp add: emitted_def)

section \<open>Identifiers and enumerators\<close>

lemma index_cases:
  "k < TAB5_SUBSYSTEM_COUNT \<Longrightarrow>
   k = 0 \<or> k = 1 \<or> k = 2 \<or> k = 3 \<or> k = 4 \<or> k = 5 \<or> k = 6 \<or> k = 7"
  unfolding TAB5_SUBSYSTEM_COUNT_def by arith

lemma sint_enumerator:
  "k < TAB5_SUBSYSTEM_COUNT \<Longrightarrow> sint (word_of_nat k :: tab5_subsystem_t) = int k"
  using index_cases [of k] by auto

lemma unat_enumerator:
  "k < TAB5_SUBSYSTEM_COUNT \<Longrightarrow> unat (word_of_nat k :: tab5_subsystem_t) = k"
  using index_cases [of k] by auto

lemma valid_identifier:
  fixes subsystem :: tab5_subsystem_t
  assumes "0 \<le> sint subsystem" and "sint subsystem < int TAB5_SUBSYSTEM_COUNT"
  shows "unat subsystem < TAB5_SUBSYSTEM_COUNT" and "word_of_nat (unat subsystem) = subsystem"
proof -
  have "word_of_nat (nat (sint subsystem)) = (word_of_int (int (nat (sint subsystem))) :: 32 word)"
    by (simp only: word_of_int_nat of_int_of_nat_eq)
  also have "\<dots> = word_of_int (sint subsystem)" using assms by simp
  also have "\<dots> = subsystem" by simp
  finally have e: "subsystem = word_of_nat (nat (sint subsystem))" by simp
  have l: "nat (sint subsystem) < TAB5_SUBSYSTEM_COUNT" using assms by simp
  have "unat subsystem = nat (sint subsystem)"
    using unat_enumerator [OF l] e by simp
  with l e show "unat subsystem < TAB5_SUBSYSTEM_COUNT"
    and "word_of_nat (unat subsystem) = subsystem" by simp_all
qed

lemma tab5duino_init_subsystem_enumerator:
  "k < TAB5_SUBSYSTEM_COUNT \<Longrightarrow>
   tab5duino_init_subsystem env (word_of_nat k) w = Some (init_subsystem_at env k w)"
  by (simp add: tab5duino_init_subsystem_def sint_enumerator unat_enumerator)


section \<open>The subsystem state query\<close>

lemma get_subsystem_state_by_value:
  "(sint subsystem \<ge> int TAB5_SUBSYSTEM_COUNT \<longrightarrow>
      tab5duino_get_subsystem_state g subsystem = Some TAB5_SUBSYSTEM_ERROR) \<and>
   (0 \<le> sint subsystem \<and> sint subsystem < int TAB5_SUBSYSTEM_COUNT \<longrightarrow>
      tab5duino_get_subsystem_state g subsystem = Some (subsystem_states g ! unat subsystem)) \<and>
   (sint subsystem < 0 \<longrightarrow> tab5duino_get_subsystem_state g subsystem = None)"
  by (simp add: tab5duino_get_subsystem_state_def TAB5_SUBSYSTEM_COUNT_def)

text \<open>
  Claim C10. The query answers \<open>TAB5_SUBSYSTEM_ERROR\<close> for an identifier whose value as an
  \<open>int\<close> is at or beyond \<open>TAB5_SUBSYSTEM_COUNT\<close>, and the stored state for a valid one
  (lemma \<open>get_subsystem_state_by_value\<close>). The identifier \<open>0xFFFFFFFF\<close> is beyond the
  count as the unsigned number it holds, but \<open>-1\<close> as an \<open>int\<close>: it passes the test
  \<open>subsystem >= TAB5_SUBSYSTEM_COUNT\<close>, and the query does not answer
  \<open>TAB5_SUBSYSTEM_ERROR\<close> but reads \<open>subsystem_states[-1]\<close>, outside the array, whatever the
  instance holds.
\<close>

theorem get_subsystem_state_out_of_bounds:
  "TAB5_SUBSYSTEM_COUNT \<le> unat (0xFFFFFFFF :: tab5_subsystem_t) \<and>
   sint (0xFFFFFFFF :: tab5_subsystem_t) = - 1 \<and>
   tab5duino_get_subsystem_state g 0xFFFFFFFF = None \<and>
   tab5duino_get_subsystem_state g 0xFFFFFFFF \<noteq> Some TAB5_SUBSYSTEM_ERROR"
  by (simp add: tab5duino_get_subsystem_state_def TAB5_SUBSYSTEM_COUNT_def)

section \<open>Deinitialising one subsystem\<close>

text \<open>
  Claim C9. For every valid identifier (one whose value is an index inside the array)
  \<open>tab5duino_deinit_subsystem\<close> returns \<open>ESP_OK\<close>; afterwards the subsystem is
  \<open>UNINITIALIZED\<close>, hence never \<open>ERROR\<close>; when it was \<open>UNINITIALIZED\<close> already nothing at
  all changes; the other subsystems keep their state.
\<close>

theorem deinit_subsystem_always_succeeds:
  assumes "0 \<le> sint subsystem" and "sint subsystem < int TAB5_SUBSYSTEM_COUNT"
    and "instance_ok (g_tab5duino_instance w)"
  shows "\<exists>w'. tab5duino_deinit_subsystem subsystem w = Some (ESP_OK, w') \<and>
         state_of w' (unat subsystem) = TAB5_SUBSYSTEM_UNINITIALIZED \<and>
         state_of w' (unat subsystem) \<noteq> TAB5_SUBSYSTEM_ERROR \<and>
         (state_of w (unat subsystem) = TAB5_SUBSYSTEM_UNINITIALIZED \<longrightarrow> w' = w) \<and>
         (\<forall>s. s \<noteq> unat subsystem \<longrightarrow> state_of w' s = state_of w s)"
  using assms valid_identifier(1) [OF assms(1,2)]
  by (simp add: tab5duino_deinit_subsystem_def deinit_subsystem_at_def Let_def
      state_of_set_state instance_ok_def)

theorem deinit_subsystem_always_succeeds_witness:
  "0 \<le> sint (word_of_nat TAB5_SUBSYSTEM_TOUCH :: tab5_subsystem_t) \<and>
   sint (word_of_nat TAB5_SUBSYSTEM_TOUCH :: tab5_subsystem_t) < int TAB5_SUBSYSTEM_COUNT \<and>
   instance_ok (g_tab5duino_instance world_mixed) \<and>
   state_of world_mixed TAB5_SUBSYSTEM_TOUCH = TAB5_SUBSYSTEM_ERROR \<and>
   (\<exists>w'. tab5duino_deinit_subsystem (word_of_nat TAB5_SUBSYSTEM_TOUCH) world_mixed
            = Some (ESP_OK, w') \<and>
         state_of w' TAB5_SUBSYSTEM_TOUCH = TAB5_SUBSYSTEM_UNINITIALIZED)"
proof -
  have a: "0 \<le> sint (word_of_nat TAB5_SUBSYSTEM_TOUCH :: tab5_subsystem_t)"
    "sint (word_of_nat TAB5_SUBSYSTEM_TOUCH :: tab5_subsystem_t) < int TAB5_SUBSYSTEM_COUNT"
    by (simp_all add: subsystem_defs)
  have b: "instance_ok (g_tab5duino_instance world_mixed)"
    by (simp add: world_mixed_def instance_mixed_def instance_ok_def subsystem_defs)
  have c: "state_of world_mixed TAB5_SUBSYSTEM_TOUCH = TAB5_SUBSYSTEM_ERROR"
    by (simp add: world_mixed_def instance_mixed_def state_of_def subsystem_defs)
  have d: "unat (word_of_nat TAB5_SUBSYSTEM_TOUCH :: tab5_subsystem_t) = TAB5_SUBSYSTEM_TOUCH"
    by (simp add: subsystem_defs)
  show ?thesis
    using a b c deinit_subsystem_always_succeeds [OF a b] unfolding d by blast
qed

section \<open>The display flush callback\<close>

text \<open>
  Claim C5. Whatever the handle, the acceleration setting and the result of the
  accelerated blend, one call of \<open>display_flush_cb\<close> keeps the trace it found, adds
  \<open>lv_disp_flush_ready\<close> exactly once, and adds it as its last action.
\<close>

theorem display_flush_cb_signals_once:
  "take (length (trace w)) (trace (display_flush_cb env area w)) = trace w \<and>
   count_list (emitted w (display_flush_cb env area w)) flush_ready = 1 \<and>
   last (trace (display_flush_cb env area w)) = flush_ready"
  by (simp add: display_flush_cb_def emitted_def flush_ready_def Let_def split: option.splits)

section \<open>The LVGL integration and the controller state\<close>

lemma instance_set_context [simp]:
  "g_tab5duino_instance (set_context f w) = g_tab5duino_instance w"
  by (simp add: set_context_def)

lemma trace_set_context [simp]: "trace (set_context f w) = trace w"
  by (simp add: set_context_def)

lemma timer_set_context [simp]: "lvgl_tick_timer (set_context f w) = lvgl_tick_timer w"
  by (simp add: set_context_def)

lemma instance_lvgl_tab5_stop [simp]:
  "g_tab5duino_instance (snd (lvgl_tab5_stop w)) = g_tab5duino_instance w"
  by (simp add: lvgl_tab5_stop_def Let_def split: option.splits)

lemma instance_lvgl_tab5_deinit [simp]:
  "g_tab5duino_instance (lvgl_tab5_deinit w) = g_tab5duino_instance w"
  by (simp add: lvgl_tab5_deinit_def Let_def split: option.splits)

lemma instance_cleanup [simp]:
  "g_tab5duino_instance (snd (cleanup ret w)) = g_tab5duino_instance w"
  by (simp add: cleanup_def)

lemma instance_lvgl_tab5_init_drivers [simp]:
  "g_tab5duino_instance (snd (lvgl_tab5_init_drivers env w)) = g_tab5duino_instance w"
  by (simp add: lvgl_tab5_init_drivers_def Let_def)

lemma instance_lvgl_tab5_init_buffers [simp]:
  "g_tab5duino_instance (snd (lvgl_tab5_init_buffers env cfg w)) = g_tab5duino_instance w"
  by (simp add: lvgl_tab5_init_buffers_def Let_def)

lemma instance_lvgl_tab5_init [simp]:
  "g_tab5duino_instance (snd (lvgl_tab5_init env cfg w)) = g_tab5duino_instance w"
  by (simp add: lvgl_tab5_init_def Let_def)

lemma instance_lvgl_tab5_start [simp]:
  "g_tab5duino_instance (snd (lvgl_tab5_start env w)) = g_tab5duino_instance w"
  by (simp add: lvgl_tab5_start_def Let_def split: option.splits)

lemma instance_subsystem_bringup [simp]:
  "g_tab5duino_instance (snd (subsystem_bringup env s w)) = g_tab5duino_instance w"
  by (simp add: subsystem_bringup_def Let_def split: prod.splits)
     (metis instance_lvgl_tab5_init instance_lvgl_tab5_start snd_conv)

subsection \<open>No LVGL function emits a subsystem-level event\<close>

lemma quiet_ext_refl [simp, intro!]: "quiet_ext w w"
  by (simp add: quiet_ext_def)

lemma quiet_ext_trans: "quiet_ext w w' \<Longrightarrow> quiet_ext w' w'' \<Longrightarrow> quiet_ext w w''"
  by (auto simp: quiet_ext_def)

lemma quiet_ext_emit [intro!]:
  "quiet_ext w w' \<Longrightarrow> \<not> is_subsystem_log e \<Longrightarrow> quiet_ext w (emit e w')"
  by (auto simp: quiet_ext_def)

lemma quiet_ext_emit_when [intro!]:
  "quiet_ext w w' \<Longrightarrow> \<not> is_subsystem_log e \<Longrightarrow> quiet_ext w (emit_when c e w')"
  by (auto simp: quiet_ext_def)

lemma quiet_ext_set_context [intro!]:
  "quiet_ext w w' \<Longrightarrow> quiet_ext w (set_context f w')"
  by (auto simp: quiet_ext_def)

lemma quiet_ext_handle_update [intro!]:
  "quiet_ext w w' \<Longrightarrow> quiet_ext w (w'\<lparr>lvgl_handle := h\<rparr>)"
  by (auto simp: quiet_ext_def)

lemma quiet_ext_timer_update [intro!]:
  "quiet_ext w w' \<Longrightarrow> quiet_ext w (w'\<lparr>lvgl_tick_timer := t\<rparr>)"
  by (auto simp: quiet_ext_def)

lemma quiet_lvgl_tab5_stop: "quiet_ext w w' \<Longrightarrow> quiet_ext w (snd (lvgl_tab5_stop w'))"
  by (auto simp: lvgl_tab5_stop_def Let_def is_subsystem_log_def split: option.splits)

lemma quiet_lvgl_tab5_deinit: "quiet_ext w w' \<Longrightarrow> quiet_ext w (lvgl_tab5_deinit w')"
  by (auto simp: lvgl_tab5_deinit_def Let_def is_subsystem_log_def split: option.splits
           intro!: quiet_lvgl_tab5_stop)

lemma quiet_cleanup: "quiet_ext w w' \<Longrightarrow> quiet_ext w (snd (cleanup ret w'))"
  by (auto simp: cleanup_def intro!: quiet_lvgl_tab5_deinit)

lemma quiet_lvgl_tab5_init_drivers:
  "quiet_ext w w' \<Longrightarrow> quiet_ext w (snd (lvgl_tab5_init_drivers env w'))"
  by (auto simp: lvgl_tab5_init_drivers_def Let_def is_subsystem_log_def
           intro!: quiet_cleanup)

lemma quiet_lvgl_tab5_init_buffers:
  "quiet_ext w w' \<Longrightarrow> quiet_ext w (snd (lvgl_tab5_init_buffers env cfg w'))"
  by (auto simp: lvgl_tab5_init_buffers_def Let_def is_subsystem_log_def
           intro!: quiet_cleanup quiet_lvgl_tab5_init_drivers)

lemma quiet_lvgl_tab5_init:
  "quiet_ext w w' \<Longrightarrow> quiet_ext w (snd (lvgl_tab5_init env cfg w'))"
  by (auto simp: lvgl_tab5_init_def Let_def is_subsystem_log_def
           intro!: quiet_cleanup quiet_lvgl_tab5_init_buffers)

lemma quiet_lvgl_tab5_start:
  "quiet_ext w w' \<Longrightarrow> quiet_ext w (snd (lvgl_tab5_start env w'))"
  by (auto simp: lvgl_tab5_start_def Let_def is_subsystem_log_def split: option.splits)

lemma quiet_subsystem_bringup:
  "quiet_ext w w' \<Longrightarrow> quiet_ext w (snd (subsystem_bringup env s w'))"
  by (auto simp: subsystem_bringup_def Let_def is_subsystem_log_def split: prod.splits
           intro!: quiet_ext_emit_when)
     (metis quiet_lvgl_tab5_init quiet_lvgl_tab5_start snd_conv)+

section \<open>One call of tab5duino\_init\_subsystem\<close>

lemma set_state_twice [simp]: "set_state s v (set_state s v' w) = set_state s v w"
  by (simp add: set_state_def)

lemma instance_set_state:
  "g_tab5duino_instance (set_state s v w) =
     (g_tab5duino_instance w)\<lparr>subsystem_states := (subsystem_states (g_tab5duino_instance w))[s := v]\<rparr>"
  by (simp add: set_state_def)

lemma quiet_ext_obtain:
  assumes "quiet_ext w w'"
  obtains evs where "trace w' = trace w @ evs" and "filter is_subsystem_log evs = []"
  using assms by (auto simp: quiet_ext_def)

lemma bringup_placeholder:
  "s < TAB5_SUBSYSTEM_LVGL \<Longrightarrow> subsystem_bringup env s w = (ESP_OK, w)"
  by (simp add: subsystem_bringup_def)

lemma tab5duino_init_subsystem_effect:
  fixes env :: env and w :: world
  assumes s: "s < TAB5_SUBSYSTEM_COUNT" and u: "state_of w s = TAB5_SUBSYSTEM_UNINITIALIZED"
  defines "w1 \<equiv> set_state s TAB5_SUBSYSTEM_INITIALIZING (emit (init_log s) w)"
  defines "r \<equiv> fst (subsystem_bringup env s w1)"
  shows "fst (init_subsystem_at env s w) = r"
    and "g_tab5duino_instance (snd (init_subsystem_at env s w)) =
           (g_tab5duino_instance w)\<lparr>subsystem_states :=
              (subsystem_states (g_tab5duino_instance w))
                [s := if r = ESP_OK then TAB5_SUBSYSTEM_READY else TAB5_SUBSYSTEM_ERROR]\<rparr>"
    and "\<exists>evs. trace (snd (init_subsystem_at env s w))
                 = trace w @ init_log s # evs @ init_events env s r
               \<and> filter is_subsystem_log evs = []"
proof -
  obtain r' w2 where b: "subsystem_bringup env s w1 = (r', w2)"
    by (cases "subsystem_bringup env s w1")
  have r: "r = r'" using b by (simp add: r_def)
  have g2: "g_tab5duino_instance w2 = g_tab5duino_instance w1"
    using instance_subsystem_bringup [of env s w1] b by simp
  have "quiet_ext w1 (snd (subsystem_bringup env s w1))"
    by (rule quiet_subsystem_bringup) simp
  then obtain evs where t2: "trace w2 = trace w1 @ evs" and q: "filter is_subsystem_log evs = []"
    using b by (auto elim: quiet_ext_obtain)
  have unf: "init_subsystem_at env s w =
      (if r' = ESP_OK then
         (r', emit (ready_log s) (set_state s TAB5_SUBSYSTEM_READY w2))
       else (r', emit_when (on_subsystem_error_bound env) (Hook_on_subsystem_error s r')
                (emit (failed_log s r') (set_state s TAB5_SUBSYSTEM_ERROR w2))))"
    using s u b
    by (simp add: init_subsystem_at_def Let_def w1_def init_log_def ready_log_def
        failed_log_def)
  show "fst (init_subsystem_at env s w) = r"
    by (simp add: unf r)
  show "g_tab5duino_instance (snd (init_subsystem_at env s w)) =
           (g_tab5duino_instance w)\<lparr>subsystem_states :=
              (subsystem_states (g_tab5duino_instance w))
                [s := if r = ESP_OK then TAB5_SUBSYSTEM_READY else TAB5_SUBSYSTEM_ERROR]\<rparr>"
    by (simp add: unf r instance_set_state g2 w1_def)
  have "trace (snd (init_subsystem_at env s w))
          = trace w @ init_log s # evs @ init_events env s r"
    by (simp add: unf r t2 w1_def init_events_def)
  with q show "\<exists>evs. trace (snd (init_subsystem_at env s w))
                 = trace w @ init_log s # evs @ init_events env s r
               \<and> filter is_subsystem_log evs = []"
    by blast
qed

section \<open>The init sequence, step by step\<close>

lemma is_subsystem_log_simps [simp]:
  "is_subsystem_log (init_log s)" "is_subsystem_log (ready_log s)"
  "is_subsystem_log (failed_log s r)" "is_subsystem_log (Hook_on_subsystem_error s r)"
  by (simp_all add: is_subsystem_log_def init_log_def ready_log_def failed_log_def)

lemma filter_init_events [simp]:
  "filter is_subsystem_log (init_events env s r) = init_events env s r"
  by (simp add: init_events_def)

lemma length_ready_states [simp]: "length (ready_states cfg k) = TAB5_SUBSYSTEM_COUNT"
  by (simp add: ready_states_def)

lemma ready_states_nth:
  "s < TAB5_SUBSYSTEM_COUNT \<Longrightarrow>
   ready_states cfg k ! s = (if s < k \<and> auto_enabled cfg s then TAB5_SUBSYSTEM_READY
                             else TAB5_SUBSYSTEM_UNINITIALIZED)"
  by (simp add: ready_states_def)

lemma ready_states_step:
  assumes "k < TAB5_SUBSYSTEM_COUNT" "auto_enabled cfg k"
  shows "(ready_states cfg k)[k := TAB5_SUBSYSTEM_READY] = ready_states cfg (Suc k)"
  using assms by (auto simp: list_eq_iff_nth_eq ready_states_nth nth_list_update less_Suc_eq)

lemma ready_states_skip:
  assumes "\<not> auto_enabled cfg k"
  shows "ready_states cfg (Suc k) = ready_states cfg k"
  using assms by (auto simp: ready_states_def less_Suc_eq)

lemma ready_events_step:
  "auto_enabled cfg k \<Longrightarrow> ready_events cfg (Suc k) = ready_events cfg k @ [init_log k, ready_log k]"
  by (simp add: ready_events_def)

lemma ready_events_skip:
  "\<not> auto_enabled cfg k \<Longrightarrow> ready_events cfg (Suc k) = ready_events cfg k"
  by (simp add: ready_events_def)

lemma brought_up_skip: "brought_up env cfg k \<Longrightarrow> \<not> auto_enabled cfg k \<Longrightarrow> brought_up env cfg (Suc k)"
  by (auto simp: brought_up_def less_Suc_eq)

lemma brought_up_step:
  "brought_up env cfg k \<Longrightarrow> fst (subsystem_bringup env k wk) = ESP_OK \<Longrightarrow>
   brought_up env cfg (Suc k)"
  by (auto simp: brought_up_def less_Suc_eq)

lemma reached_skip:
  "reached env w0 k w \<Longrightarrow> \<not> auto_enabled (config (g_tab5duino_instance w0)) k \<Longrightarrow>
   reached env w0 (Suc k) w"
  by (simp add: reached_def ready_states_skip ready_events_skip brought_up_skip)

lemma reached_state:
  "reached env w0 k w \<Longrightarrow> s < TAB5_SUBSYSTEM_COUNT \<Longrightarrow>
   state_of w s = (if s < k \<and> auto_enabled (config (g_tab5duino_instance w0)) s
                   then TAB5_SUBSYSTEM_READY else TAB5_SUBSYSTEM_UNINITIALIZED)"
  by (simp add: reached_def state_of_def ready_states_nth)

lemma reached_step:
  assumes re: "reached env w0 k w" and k: "k < TAB5_SUBSYSTEM_COUNT"
    and en: "auto_enabled (config (g_tab5duino_instance w0)) k"
  shows "(fst (init_subsystem_at env k w) = ESP_OK \<longrightarrow>
            reached env w0 (Suc k) (snd (init_subsystem_at env k w))) \<and>
         (fst (init_subsystem_at env k w) \<noteq> ESP_OK \<longrightarrow>
            failed_at env w0 k (fst (init_subsystem_at env k w))
              (snd (init_subsystem_at env k w)))"
proof -
  let ?cfg = "config (g_tab5duino_instance w0)"
  let ?rw = "init_subsystem_at env k w"
  have u: "state_of w k = TAB5_SUBSYSTEM_UNINITIALIZED"
    using reached_state [OF re k] by simp
  note eff = tab5duino_init_subsystem_effect [OF k u, of env]
  have bu: "brought_up env ?cfg k"
    using re by (simp add: reached_def)
  have bu': "brought_up env ?cfg (Suc k)" if "fst ?rw = ESP_OK"
    using brought_up_step [OF bu] that eff(1) by simp
  obtain evs0 where t0: "trace w = trace w0 @ evs0"
    and f0: "filter is_subsystem_log evs0 = ready_events ?cfg k"
    using re by (auto simp: reached_def)
  obtain evs where t: "trace (snd ?rw) = trace w @ init_log k # evs @ init_events env k (fst ?rw)"
    and q: "filter is_subsystem_log evs = []"
    using eff(3) eff(1) by auto
  have g: "g_tab5duino_instance (snd ?rw) = (g_tab5duino_instance w0)\<lparr>subsystem_states :=
      (ready_states ?cfg k)[k := if fst ?rw = ESP_OK then TAB5_SUBSYSTEM_READY else TAB5_SUBSYSTEM_ERROR]\<rparr>"
    using eff(2) eff(1) re by (simp add: reached_def)
  have tr: "trace (snd ?rw) = trace w0 @ (evs0 @ init_log k # evs @ init_events env k (fst ?rw))"
    and fl: "filter is_subsystem_log (evs0 @ init_log k # evs @ init_events env k (fst ?rw))
              = ready_events ?cfg k @ init_log k # init_events env k (fst ?rw)"
    using t t0 f0 q by simp_all
  show ?thesis
  proof (cases "fst ?rw = ESP_OK")
    case True
    have "reached env w0 (Suc k) (snd ?rw)"
      unfolding reached_def
      using g True tr fl en k bu'
      by (auto simp: ready_states_step ready_events_step init_events_def)
    with True show ?thesis by simp
  next
    case False
    have "failed_at env w0 k (fst ?rw) (snd ?rw)"
      unfolding failed_at_def using g False tr fl en k eff(1) bu by auto
    with False show ?thesis by simp
  qed
qed

lemma init_step_outcome:
  assumes re: "reached env w0 k w" and k: "k < TAB5_SUBSYSTEM_COUNT"
    and fl: "flag = auto_enabled (config (g_tab5duino_instance w0)) k"
    and rest: "\<And>w'. reached env w0 (Suc k) w' \<Longrightarrow> returns_outcome env w0 (rest w')"
  shows "returns_outcome env w0 (init_step env flag k rest w)"
proof (cases flag)
  case False
  then show ?thesis
    using rest [OF reached_skip [OF re]] fl by (simp add: init_step_def)
next
  case True
  then have en: "auto_enabled (config (g_tab5duino_instance w0)) k" using fl by simp
  obtain r w' where eq: "init_subsystem_at env k w = (r, w')"
    by (cases "init_subsystem_at env k w")
  have call: "tab5duino_init_subsystem env (word_of_nat k) w = Some (r, w')"
    using tab5duino_init_subsystem_enumerator [OF k] eq by simp
  note st = reached_step [OF re k en, unfolded eq fst_conv snd_conv]
  show ?thesis
  proof (cases "r = ESP_OK")
    case ok: True
    then show ?thesis using st rest True call
      by (simp add: init_step_def)
  next
    case bad: False
    then have "outcome env w0 (r, w')"
      using st by (auto simp: outcome_def)
    then show ?thesis using bad True call
      by (simp add: init_step_def returns_outcome_def)
  qed
qed

lemma init_hardware_subsystems_outcome:
  assumes "subsystem_states (g_tab5duino_instance w)
             = replicate TAB5_SUBSYSTEM_COUNT TAB5_SUBSYSTEM_UNINITIALIZED"
  shows "returns_outcome env w (init_hardware_subsystems env w)"
proof -
  let ?cfg = "config (g_tab5duino_instance w)"
  let ?lvgl = "init_step env (auto_init_lvgl ?cfg) TAB5_SUBSYSTEM_LVGL (\<lambda>w. Some (ESP_OK, w))"
  let ?power = "init_step env True TAB5_SUBSYSTEM_POWER ?lvgl"
  let ?audio = "init_step env (auto_init_audio ?cfg) TAB5_SUBSYSTEM_AUDIO ?power"
  let ?imu = "init_step env (auto_init_imu ?cfg) TAB5_SUBSYSTEM_IMU ?audio"
  let ?touch = "init_step env (auto_init_touch ?cfg) TAB5_SUBSYSTEM_TOUCH ?imu"
  have r0: "reached env w 0 w"
    using assms
    by (simp add: reached_def ready_states_def ready_events_def map_replicate_const
        brought_up_def)
  have n5: "\<not> auto_enabled ?cfg 5" and n6: "\<not> auto_enabled ?cfg 6"
    by (simp_all add: auto_enabled_def subsystem_defs)
  have fin: "returns_outcome env w (Some (ESP_OK, w'))" if "reached env w (Suc 7) w'" for w'
    using that by (simp add: returns_outcome_def outcome_def subsystem_defs eval_nat_numeral)
  have lvgl: "returns_outcome env w (?lvgl w')" if "reached env w (Suc 4) w'" for w'
  proof -
    have "reached env w 7 w'"
      using reached_skip [OF reached_skip [OF that [simplified]]] n5 n6
      by (simp add: eval_nat_numeral)
    then show ?thesis
      unfolding TAB5_SUBSYSTEM_LVGL_def
      by (rule init_step_outcome) (simp_all add: auto_enabled_def subsystem_defs fin)
  qed
  have power: "returns_outcome env w (?power w')" if "reached env w (Suc 3) w'" for w'
    unfolding TAB5_SUBSYSTEM_POWER_def
    by (rule init_step_outcome [where k = 4, OF _ _ _ lvgl [unfolded TAB5_SUBSYSTEM_POWER_def]])
       (use that in \<open>simp_all add: auto_enabled_def subsystem_defs eval_nat_numeral\<close>)
  have audio: "returns_outcome env w (?audio w')" if "reached env w (Suc 2) w'" for w'
    unfolding TAB5_SUBSYSTEM_AUDIO_def
    by (rule init_step_outcome [where k = 3, OF _ _ _ power [unfolded TAB5_SUBSYSTEM_AUDIO_def]])
       (use that in \<open>simp_all add: auto_enabled_def subsystem_defs eval_nat_numeral\<close>)
  have imu: "returns_outcome env w (?imu w')" if "reached env w (Suc 1) w'" for w'
    unfolding TAB5_SUBSYSTEM_IMU_def
    by (rule init_step_outcome [where k = 2, OF _ _ _ audio [unfolded TAB5_SUBSYSTEM_IMU_def]])
       (use that in \<open>simp_all add: auto_enabled_def subsystem_defs eval_nat_numeral\<close>)
  have touch: "returns_outcome env w (?touch w')" if "reached env w (Suc 0) w'" for w'
    unfolding TAB5_SUBSYSTEM_TOUCH_def
    by (rule init_step_outcome [where k = 1, OF _ _ _ imu [unfolded TAB5_SUBSYSTEM_TOUCH_def]])
       (use that in \<open>simp_all add: auto_enabled_def subsystem_defs eval_nat_numeral\<close>)
  show ?thesis
    unfolding init_hardware_subsystems_def Let_def TAB5_SUBSYSTEM_DISPLAY_def
    by (rule init_step_outcome [where k = 0, OF r0 _ _ touch [unfolded TAB5_SUBSYSTEM_DISPLAY_def]])
       (simp_all add: auto_enabled_def subsystem_defs)
qed

section \<open>A whole run of tab5duino\_init\<close>

lemma fold_set_state_upt:
  "n \<le> length (subsystem_states (g_tab5duino_instance w)) \<Longrightarrow>
   fold (\<lambda>i. set_state i v) [0..<n] w =
     w\<lparr>g_tab5duino_instance := (g_tab5duino_instance w)
         \<lparr>subsystem_states := replicate n v @ drop n (subsystem_states (g_tab5duino_instance w))\<rparr>\<rparr>"
proof (induction n)
  case 0
  then show ?case by simp
next
  case (Suc n)
  let ?xs = "subsystem_states (g_tab5duino_instance w)"
  have "(replicate n v @ drop n ?xs)[n := v] = replicate (Suc n) v @ drop (Suc n) ?xs"
    using Suc.prems
    by (simp add: list_update_append replicate_append_same upd_conv_take_nth_drop Cons_nth_drop_Suc)
  with Suc show ?case
    by (simp add: set_state_def)
qed

lemma tab5duino_init_unfold:
  assumes "\<not> framework_initialized (g_tab5duino_instance w)"
    and "init_hardware_subsystems env (init_preamble env cfg_opt w) = Some rw"
  shows "tab5duino_init env cfg_opt w =
     Some (if fst rw \<noteq> ESP_OK then
           (fst rw, emit (Log LOGE ''Failed to initialize hardware subsystems: %s'' [ArgErr (fst rw)]) (snd rw))
         else
           (ESP_OK, emit (Log LOGI ''Framework initialization complete'' [])
              (emit_when (on_framework_init_bound env) Hook_on_framework_init
                ((snd rw)\<lparr>g_tab5duino_instance := (g_tab5duino_instance (snd rw))
                         \<lparr>framework_initialized := True\<rparr>\<rparr>))))"
  using assms
  by (simp add: tab5duino_init_def init_preamble_def Let_def split: prod.splits)

lemma instance_init_preamble:
  assumes "instance_ok (g_tab5duino_instance w)"
  shows "g_tab5duino_instance (init_preamble env cfg_opt w)
           = g_tab5duino_instance (init_base env cfg_opt w)"
  using assms
  by (simp add: init_preamble_def init_base_def Let_def fold_set_state_upt instance_ok_def
      effective_config_def)

lemma trace_fold_set_state [simp]: "trace (fold (\<lambda>i. set_state i v) xs w) = trace w"
  by (induction xs arbitrary: w) simp_all

lemma quiet_init_preamble: "quiet_ext w (init_preamble env cfg_opt w)"
  by (simp add: init_preamble_def Let_def is_subsystem_log_def quiet_ext_def)

lemma config_init_base [simp]:
  "config (g_tab5duino_instance (init_base env cfg_opt w)) = effective_config cfg_opt"
  by (simp add: init_base_def)

lemma trace_init_base [simp]: "trace (init_base env cfg_opt w) = trace w"
  by (simp add: init_base_def)

lemma tab5duino_init_call:
  fixes env :: env and cfg_opt :: "tab5duino_config_t option" and w :: world
  assumes ni: "\<not> framework_initialized (g_tab5duino_instance w)"
    and ok: "instance_ok (g_tab5duino_instance w)"
  defines "b \<equiv> init_base env cfg_opt w"
  defines "rw \<equiv> init_result env cfg_opt w"
  shows "tab5duino_init env cfg_opt w = Some rw \<and>
         ((fst rw = ESP_OK
          \<and> brought_up env (effective_config cfg_opt) TAB5_SUBSYSTEM_COUNT
          \<and> g_tab5duino_instance (snd rw) = (g_tab5duino_instance b)
               \<lparr>subsystem_states := ready_states (effective_config cfg_opt) TAB5_SUBSYSTEM_COUNT,
                framework_initialized := True\<rparr>
          \<and> (\<exists>evs. trace (snd rw) = trace w @ evs
                 \<and> filter is_subsystem_log evs
                     = ready_events (effective_config cfg_opt) TAB5_SUBSYSTEM_COUNT))
         \<or> (\<exists>k. failed_at env b k (fst rw) (snd rw)))"
proof -
  define w5 where "w5 = init_preamble env cfg_opt w"
  have g5: "g_tab5duino_instance w5 = g_tab5duino_instance b"
    unfolding w5_def b_def by (rule instance_init_preamble [OF ok])
  obtain pre where t5: "trace w5 = trace w @ pre" and q5: "filter is_subsystem_log pre = []"
    using quiet_init_preamble [of w env cfg_opt] unfolding w5_def by (auto elim: quiet_ext_obtain)
  have "subsystem_states (g_tab5duino_instance w5)
          = replicate TAB5_SUBSYSTEM_COUNT TAB5_SUBSYSTEM_UNINITIALIZED"
    by (simp add: g5 b_def init_base_def)
  then have "returns_outcome env w5 (init_hardware_subsystems env w5)"
    by (rule init_hardware_subsystems_outcome)
  then obtain hw where hw: "init_hardware_subsystems env w5 = Some hw" and out: "outcome env w5 hw"
    by (auto simp: returns_outcome_def)
  have ret: "tab5duino_init env cfg_opt w = Some rw" and rw: "rw = (if fst hw \<noteq> ESP_OK then
           (fst hw, emit (Log LOGE ''Failed to initialize hardware subsystems: %s'' [ArgErr (fst hw)]) (snd hw))
         else
           (ESP_OK, emit (Log LOGI ''Framework initialization complete'' [])
              (emit_when (on_framework_init_bound env) Hook_on_framework_init
                ((snd hw)\<lparr>g_tab5duino_instance := (g_tab5duino_instance (snd hw))
                         \<lparr>framework_initialized := True\<rparr>\<rparr>))))"
    unfolding rw_def init_result_def
    using tab5duino_init_unfold [OF ni hw [unfolded w5_def]] by simp_all
  from out have "(fst rw = ESP_OK
          \<and> brought_up env (effective_config cfg_opt) TAB5_SUBSYSTEM_COUNT
          \<and> g_tab5duino_instance (snd rw) = (g_tab5duino_instance b)
               \<lparr>subsystem_states := ready_states (effective_config cfg_opt) TAB5_SUBSYSTEM_COUNT,
                framework_initialized := True\<rparr>
          \<and> (\<exists>evs. trace (snd rw) = trace w @ evs
                 \<and> filter is_subsystem_log evs
                     = ready_events (effective_config cfg_opt) TAB5_SUBSYSTEM_COUNT))
         \<or> (\<exists>k. failed_at env b k (fst rw) (snd rw))"
    unfolding outcome_def
  proof
    assume a: "fst hw = ESP_OK \<and> reached env w5 TAB5_SUBSYSTEM_COUNT (snd hw)"
    then obtain evs where "trace (snd hw) = trace w5 @ evs"
      and "filter is_subsystem_log evs = ready_events (effective_config cfg_opt) TAB5_SUBSYSTEM_COUNT"
      and "g_tab5duino_instance (snd hw) = (g_tab5duino_instance b)
             \<lparr>subsystem_states := ready_states (effective_config cfg_opt) TAB5_SUBSYSTEM_COUNT\<rparr>"
      and "brought_up env (effective_config cfg_opt) TAB5_SUBSYSTEM_COUNT"
      by (auto simp: reached_def g5 b_def)
    then show ?thesis
      using a t5 q5
      by (auto simp: rw is_subsystem_log_def intro!: disjI1)
  next
    assume "\<exists>k. failed_at env w5 k (fst hw) (snd hw)"
    then obtain k where f: "failed_at env w5 k (fst hw) (snd hw)" ..
    then have bad: "fst hw \<noteq> ESP_OK" by (simp add: failed_at_def)
    obtain evs where "trace (snd hw) = trace w5 @ evs"
      and "filter is_subsystem_log evs
             = ready_events (effective_config cfg_opt) k @ init_log k # init_events env k (fst hw)"
      using f by (auto simp: failed_at_def g5 b_def)
    then have "failed_at env b k (fst rw) (snd rw)"
      using f bad t5 q5
      by (auto simp: rw failed_at_def g5 b_def is_subsystem_log_def)
    then show ?thesis by blast
  qed
  with ret show ?thesis by simp
qed

lemma tab5duino_init_returns:
  assumes "instance_ok (g_tab5duino_instance w)"
  shows "tab5duino_init env cfg_opt w = Some (init_result env cfg_opt w)"
proof (cases "framework_initialized (g_tab5duino_instance w)")
  case True
  then show ?thesis by (simp add: init_result_def tab5duino_init_def)
next
  case False
  then show ?thesis using tab5duino_init_call [OF False assms] by simp
qed

lemma tab5duino_init_run:
  fixes env :: env and cfg_opt :: "tab5duino_config_t option" and w :: world
  assumes ni: "\<not> framework_initialized (g_tab5duino_instance w)"
    and ok: "instance_ok (g_tab5duino_instance w)"
  defines "b \<equiv> init_base env cfg_opt w"
  defines "rw \<equiv> init_result env cfg_opt w"
  shows "(fst rw = ESP_OK
          \<and> brought_up env (effective_config cfg_opt) TAB5_SUBSYSTEM_COUNT
          \<and> g_tab5duino_instance (snd rw) = (g_tab5duino_instance b)
               \<lparr>subsystem_states := ready_states (effective_config cfg_opt) TAB5_SUBSYSTEM_COUNT,
                framework_initialized := True\<rparr>
          \<and> (\<exists>evs. trace (snd rw) = trace w @ evs
                 \<and> filter is_subsystem_log evs
                     = ready_events (effective_config cfg_opt) TAB5_SUBSYSTEM_COUNT))
         \<or> (\<exists>k. failed_at env b k (fst rw) (snd rw))"
  unfolding b_def rw_def using tab5duino_init_call [OF ni ok, of env cfg_opt] by blast

section \<open>Telling the log lines apart\<close>

lemma below_count:
  "s < TAB5_SUBSYSTEM_COUNT \<Longrightarrow> s = 0 \<or> s = 1 \<or> s = 2 \<or> s = 3 \<or> s = 4 \<or> s = 5 \<or> s = 6 \<or> s = 7"
  unfolding TAB5_SUBSYSTEM_COUNT_def by arith

lemma name_of_inj:
  assumes "s < TAB5_SUBSYSTEM_COUNT" "t < TAB5_SUBSYSTEM_COUNT" "name_of s = name_of t"
  shows "s = t"
  using below_count [OF assms(1)] below_count [OF assms(2)] assms(3)
  by (elim disjE; simp add: name_of_def subsystem_names_def)

lemma init_log_inj:
  "s < TAB5_SUBSYSTEM_COUNT \<Longrightarrow> t < TAB5_SUBSYSTEM_COUNT \<Longrightarrow> init_log s = init_log t \<Longrightarrow> s = t"
  by (simp add: init_log_def name_of_inj)

lemma init_log_not_others [simp]:
  "init_log s \<noteq> ready_log t" "init_log s \<noteq> failed_log t r"
  "init_log s \<noteq> Hook_on_subsystem_error t r"
  by (simp_all add: init_log_def ready_log_def failed_log_def)

lemma init_log_notin_init_events [simp]: "init_log s \<notin> set (init_events env t r)"
  by (simp add: init_events_def)

lemma subsystem_log_mem:
  "is_subsystem_log e \<Longrightarrow> e \<in> set evs \<longleftrightarrow> e \<in> set (filter is_subsystem_log evs)"
  by simp

section \<open>The bring-up of LVGL when every call succeeds\<close>

lemma the_context_simps [simp]:
  "the_context (emit e w) = the_context w"
  "the_context (emit_when c e w) = the_context w"
  "the_context (w\<lparr>lvgl_handle := Some h\<rparr>) = lvgl_context h"
  "the_context (w\<lparr>lvgl_tick_timer := t\<rparr>) = the_context w"
  by (simp_all add: the_context_def)

lemma handle_set_context [simp]:
  "lvgl_handle (set_context f w) = map_option (\<lambda>h. h\<lparr>lvgl_context := f (lvgl_context h)\<rparr>) (lvgl_handle w)"
  by (simp add: set_context_def)

lemma the_context_set_context [simp]:
  "lvgl_handle w \<noteq> None \<Longrightarrow> the_context (set_context f w) = f (the_context w)"
  by (auto simp: the_context_def set_context_def)

lemma lvgl_tab5_init_env_ok:
  "fst (lvgl_tab5_init env_ok cfg w) = ESP_OK \<and>
   (\<exists>h. lvgl_handle (snd (lvgl_tab5_init env_ok cfg w)) = Some h
        \<and> initialized (lvgl_context h) \<and> \<not> started h)"
  by (simp add: lvgl_tab5_init_def lvgl_tab5_init_buffers_def lvgl_tab5_init_drivers_def
      env_ok_def Let_def handle_zero_def)

lemma lvgl_tab5_start_env_ok:
  assumes "lvgl_handle w = Some h" "initialized (lvgl_context h)" "\<not> started h"
  shows "fst (lvgl_tab5_start env_ok w) = ESP_OK"
  using assms by (simp add: lvgl_tab5_start_def env_ok_def Let_def)

lemma subsystem_bringup_env_ok: "fst (subsystem_bringup env_ok s w) = ESP_OK" if "s < TAB5_SUBSYSTEM_COUNT"
proof (cases "s < TAB5_SUBSYSTEM_LVGL")
  case True
  then show ?thesis by (simp add: bringup_placeholder env_ok_def)
next
  case False
  then have s: "s = TAB5_SUBSYSTEM_LVGL" using that by (simp add: subsystem_defs)
  obtain r w1 where i: "lvgl_tab5_init env_ok (Some LVGL_TAB5_CONFIG_DEFAULT) w = (r, w1)"
    by (cases "lvgl_tab5_init env_ok (Some LVGL_TAB5_CONFIG_DEFAULT) w")
  then have r: "r = ESP_OK" and "\<exists>h. lvgl_handle w1 = Some h \<and> initialized (lvgl_context h) \<and> \<not> started h"
    using lvgl_tab5_init_env_ok [of "Some LVGL_TAB5_CONFIG_DEFAULT" w] by simp_all
  then have "fst (lvgl_tab5_start env_ok w1) = ESP_OK"
    using lvgl_tab5_start_env_ok by blast
  then show ?thesis
    using i r s by (auto simp: subsystem_bringup_def split: prod.splits)
qed

section \<open>The order of events in a run\<close>

lemma takeWhile_filter_neq:
  "P b \<Longrightarrow> takeWhile (\<lambda>e. e \<noteq> b) (filter P evs) = filter P (takeWhile (\<lambda>e. e \<noteq> b) evs)"
  by (induction evs) auto

lemma before_filter:
  "P a \<Longrightarrow> P b \<Longrightarrow> before a b (filter P evs) = before a b evs"
  by (simp add: before_def takeWhile_filter_neq)

lemma before_append:
  "b \<notin> set xs \<Longrightarrow> a \<in> set xs \<Longrightarrow> before a b (xs @ b # ys)"
  by (simp add: before_def takeWhile_append)

lemma ready_events_upto: "set (ready_events cfg k) = (\<Union>s\<in>{s. s < k \<and> auto_enabled cfg s}. {init_log s, ready_log s})"
  by (auto simp: ready_events_def)

lemma ready_log_not_init [simp]: "ready_log s \<noteq> init_log t"
  by (simp add: init_log_def ready_log_def)

lemma ready_log_inj:
  "s < TAB5_SUBSYSTEM_COUNT \<Longrightarrow> t < TAB5_SUBSYSTEM_COUNT \<Longrightarrow> ready_log s = ready_log t \<Longrightarrow> s = t"
  by (simp add: ready_log_def name_of_inj)

lemma ready_log_not_others [simp]:
  "ready_log s \<noteq> failed_log t r" "ready_log s \<noteq> Hook_on_subsystem_error t r"
  by (simp_all add: ready_log_def failed_log_def)

lemma ready_log_notin_init_events:
  "r \<noteq> ESP_OK \<Longrightarrow> ready_log s \<notin> set (init_events env t r)"
  by (simp add: init_events_def)

lemma init_log_in_ready_events:
  assumes s: "s < TAB5_SUBSYSTEM_COUNT" and k: "k \<le> TAB5_SUBSYSTEM_COUNT"
  shows "init_log s \<in> set (ready_events cfg k) \<longleftrightarrow> s < k \<and> auto_enabled cfg s"
proof
  assume "init_log s \<in> set (ready_events cfg k)"
  then obtain x where x: "x < k" "auto_enabled cfg x" "init_log s = init_log x"
    by (auto simp: ready_events_upto)
  then have "s = x" using init_log_inj [of s x] s k by simp
  with x show "s < k \<and> auto_enabled cfg s" by simp
next
  assume "s < k \<and> auto_enabled cfg s"
  then show "init_log s \<in> set (ready_events cfg k)"
    by (auto simp: ready_events_upto)
qed

lemma ready_log_in_ready_events:
  assumes s: "s < TAB5_SUBSYSTEM_COUNT" and k: "k \<le> TAB5_SUBSYSTEM_COUNT"
  shows "ready_log s \<in> set (ready_events cfg k) \<longleftrightarrow> s < k \<and> auto_enabled cfg s"
proof
  assume "ready_log s \<in> set (ready_events cfg k)"
  then obtain x where x: "x < k" "auto_enabled cfg x" "ready_log s = ready_log x"
    by (auto simp: ready_events_upto)
  then have "s = x" using ready_log_inj [of s x] s k by simp
  with x show "s < k \<and> auto_enabled cfg s" by simp
next
  assume "s < k \<and> auto_enabled cfg s"
  then show "ready_log s \<in> set (ready_events cfg k)"
    by (auto simp: ready_events_upto)
qed

text \<open>The subsystem-level events of a run, whichever way it ends.\<close>

lemma tab5duino_init_lvgl_attempted:
  fixes env :: env and cfg_opt :: "tab5duino_config_t option" and w :: world
  assumes ni: "\<not> framework_initialized (g_tab5duino_instance w)"
    and ok: "instance_ok (g_tab5duino_instance w)"
  defines "cfg \<equiv> effective_config cfg_opt"
  defines "w' \<equiv> snd (init_result env cfg_opt w)"
  defines "L \<equiv> filter is_subsystem_log (emitted w w')"
  shows "(\<exists>rest. L = ready_events cfg 7 @ init_log 7 # rest
            \<and> (\<forall>s. init_log s \<notin> set rest)
            \<and> subsystem_states (g_tab5duino_instance w')
                = (ready_states cfg 7)[7 := subsystem_states (g_tab5duino_instance w') ! 7]
            \<and> state_of w' 7 \<noteq> TAB5_SUBSYSTEM_UNINITIALIZED)
         \<or> (init_log 7 \<notin> set L \<and> ready_log 7 \<notin> set L
             \<and> state_of w' 7 = TAB5_SUBSYSTEM_UNINITIALIZED)"
proof -
  let ?b = "init_base env cfg_opt w"
  note run = tab5duino_init_run [OF ni ok, of env cfg_opt, folded w'_def cfg_def]
  have n5: "\<not> auto_enabled cfg 5" and n6: "\<not> auto_enabled cfg 6"
    by (simp_all add: auto_enabled_def subsystem_defs)
  have re8: "ready_events cfg 8 = ready_events cfg 7 @ (if auto_enabled cfg 7 then [init_log 7, ready_log 7] else [])"
    using ready_events_step [of cfg 7] ready_events_skip [of cfg 7] by (simp add: eval_nat_numeral)
  have rs8: "ready_states cfg 8 = (ready_states cfg 7)[7 := if auto_enabled cfg 7 then TAB5_SUBSYSTEM_READY else TAB5_SUBSYSTEM_UNINITIALIZED]"
    by (auto simp: list_eq_iff_nth_eq ready_states_nth nth_list_update subsystem_defs less_Suc_eq eval_nat_numeral)
  from run show ?thesis
  proof (elim disjE conjE exE)
    fix evs
    assume g: "g_tab5duino_instance w' = (g_tab5duino_instance ?b)
                 \<lparr>subsystem_states := ready_states cfg TAB5_SUBSYSTEM_COUNT, framework_initialized := True\<rparr>"
      and t: "trace w' = trace w @ evs"
      and f: "filter is_subsystem_log evs = ready_events cfg TAB5_SUBSYSTEM_COUNT"
    have L: "L = ready_events cfg 8"
      using f emitted_append [OF t] by (simp add: L_def subsystem_defs)
    show ?thesis
    proof (cases "auto_enabled cfg 7")
      case True
      then show ?thesis
        using L g
        by (auto simp: re8 rs8 state_of_def subsystem_defs ready_states_nth nth_list_update intro!: disjI1)
    next
      case False
      then show ?thesis
        using L g init_log_in_ready_events [of 7 7 cfg] ready_log_in_ready_events [of 7 7 cfg]
        by (auto simp: re8 rs8 state_of_def subsystem_defs ready_states_nth nth_list_update)
    qed
  next
    fix k
    assume fa: "failed_at env ?b k (fst (init_result env cfg_opt w)) w'"
    let ?r = "fst (init_result env cfg_opt w)"
    from fa obtain evs where k: "k < TAB5_SUBSYSTEM_COUNT"
      and g: "g_tab5duino_instance w' = (g_tab5duino_instance ?b)
                \<lparr>subsystem_states := (ready_states cfg k)[k := TAB5_SUBSYSTEM_ERROR]\<rparr>"
      and t: "trace w' = trace w @ evs"
      and f: "filter is_subsystem_log evs = ready_events cfg k @ init_log k # init_events env k ?r"
      by (auto simp: failed_at_def cfg_def)
    have L: "L = ready_events cfg k @ init_log k # init_events env k ?r"
      using f emitted_append [OF t] by (simp add: L_def)
    show ?thesis
    proof (cases "k = 7")
      case True
      then show ?thesis
        using L g
        by (auto simp: state_of_def subsystem_defs ready_states_nth nth_list_update intro!: disjI1)
    next
      case False
      then have "k < 7" using k by (simp add: subsystem_defs)
      have bad: "?r \<noteq> ESP_OK" using fa by (simp add: failed_at_def)
      from \<open>k < 7\<close> have "init_log 7 \<notin> set L" "ready_log 7 \<notin> set L"
        using L init_log_in_ready_events [of 7 k cfg] init_log_inj [of 7 k]
          ready_log_in_ready_events [of 7 k cfg] bad
        by (auto simp: subsystem_defs ready_log_notin_init_events)
      then show ?thesis
        using g \<open>k < 7\<close>
        by (auto simp: state_of_def subsystem_defs ready_states_nth nth_list_update)
    qed
  qed
qed

lemma before_append2:
  "b \<notin> set xs \<Longrightarrow> a \<noteq> b \<Longrightarrow> b \<in> set ys \<Longrightarrow> before a b (xs @ a # ys)"
  by (simp add: before_def takeWhile_append)

lemma lvgl_after_prerequisites_facts:
  fixes env :: env and cfg_opt :: "tab5duino_config_t option" and w :: world
  assumes ni: "\<not> framework_initialized (g_tab5duino_instance w)"
    and ok: "instance_ok (g_tab5duino_instance w)"
  defines "cfg \<equiv> effective_config cfg_opt"
  defines "w' \<equiv> snd (init_result env cfg_opt w)"
  defines "evs \<equiv> emitted w w'"
  shows "(state_of w' TAB5_SUBSYSTEM_LVGL \<noteq> TAB5_SUBSYSTEM_UNINITIALIZED \<longrightarrow>
            init_log TAB5_SUBSYSTEM_LVGL \<in> set evs)
       \<and> (ready_log TAB5_SUBSYSTEM_LVGL \<in> set evs \<longrightarrow>
            before (init_log TAB5_SUBSYSTEM_LVGL) (ready_log TAB5_SUBSYSTEM_LVGL) evs)
       \<and> (init_log TAB5_SUBSYSTEM_LVGL \<in> set evs \<longrightarrow>
            (auto_init_display cfg \<longrightarrow>
               before (ready_log TAB5_SUBSYSTEM_DISPLAY) (init_log TAB5_SUBSYSTEM_LVGL) evs
               \<and> state_of w' TAB5_SUBSYSTEM_DISPLAY = TAB5_SUBSYSTEM_READY)
          \<and> (auto_init_touch cfg \<longrightarrow>
               before (ready_log TAB5_SUBSYSTEM_TOUCH) (init_log TAB5_SUBSYSTEM_LVGL) evs
               \<and> state_of w' TAB5_SUBSYSTEM_TOUCH = TAB5_SUBSYSTEM_READY)
          \<and> (\<not> auto_init_display cfg \<longrightarrow>
               init_log TAB5_SUBSYSTEM_DISPLAY \<notin> set evs
               \<and> state_of w' TAB5_SUBSYSTEM_DISPLAY = TAB5_SUBSYSTEM_UNINITIALIZED)
          \<and> (\<not> auto_init_touch cfg \<longrightarrow>
               init_log TAB5_SUBSYSTEM_TOUCH \<notin> set evs
               \<and> state_of w' TAB5_SUBSYSTEM_TOUCH = TAB5_SUBSYSTEM_UNINITIALIZED))"
proof -
  define L where "L = filter is_subsystem_log evs"
  have mem: "e \<in> set evs \<longleftrightarrow> e \<in> set L" if "is_subsystem_log e" for e
    using that by (simp add: L_def)
  have bef: "before a b evs \<longleftrightarrow> before a b L" if "is_subsystem_log a" "is_subsystem_log b" for a b
    using that by (simp add: L_def before_filter)
  have en0: "auto_enabled cfg 0 = auto_init_display cfg"
    and en1: "auto_enabled cfg (Suc 0) = auto_init_touch cfg"
    by (simp_all add: auto_enabled_def subsystem_defs)
  note att = tab5duino_init_lvgl_attempted [OF ni ok, of env cfg_opt, folded cfg_def w'_def evs_def L_def]
  from att show ?thesis
  proof (elim disjE conjE exE)
    fix rest
    assume L: "L = ready_events cfg 7 @ init_log 7 # rest"
      and nr: "\<forall>s. init_log s \<notin> set rest"
      and st: "subsystem_states (g_tab5duino_instance w')
                = (ready_states cfg 7)[7 := subsystem_states (g_tab5duino_instance w') ! 7]"
    have i7: "init_log 7 \<notin> set (ready_events cfg 7)" and r7: "ready_log 7 \<notin> set (ready_events cfg 7)"
      using init_log_in_ready_events [of 7 7 cfg] ready_log_in_ready_events [of 7 7 cfg]
      by (simp_all add: subsystem_defs)
    have rd: "ready_log s \<in> set (ready_events cfg 7) \<longleftrightarrow> auto_enabled cfg s"
      and ii: "init_log s \<in> set (ready_events cfg 7) \<longleftrightarrow> auto_enabled cfg s" if "s < 2" for s
      using that init_log_in_ready_events [of s 7 cfg] ready_log_in_ready_events [of s 7 cfg]
      by (simp_all add: subsystem_defs)
    have s01: "state_of w' s = (if auto_enabled cfg s then TAB5_SUBSYSTEM_READY
                                else TAB5_SUBSYSTEM_UNINITIALIZED)" if "s < 2" for s
      using that unfolding state_of_def
      by (subst st) (simp add: ready_states_nth subsystem_defs)
    have b7: "before (init_log 7) (ready_log 7) L" if "ready_log 7 \<in> set L"
      unfolding L
      by (rule before_append2) (use that r7 in \<open>auto simp: L\<close>)
    have bs: "before (ready_log s) (init_log 7) L" if "s < 2" "auto_enabled cfg s" for s
      unfolding L
      by (rule before_append) (use that i7 rd in auto)
    have ni01: "init_log s \<notin> set L" if "s < 2" "\<not> auto_enabled cfg s" for s
      using that ii [of s] nr init_log_inj [of s 7] by (auto simp: L subsystem_defs)
    show ?thesis
      using b7 bs [of 0] bs [of 1] ni01 [of 0] ni01 [of 1] s01 [of 0] s01 [of 1]
      by (simp add: subsystem_defs mem bef en0 en1 L)
  next
    assume "init_log 7 \<notin> set L" "ready_log 7 \<notin> set L"
      and u: "state_of w' 7 = TAB5_SUBSYSTEM_UNINITIALIZED"
    then have "init_log 7 \<notin> set evs" "ready_log 7 \<notin> set evs" by (simp_all add: mem)
    with u show ?thesis by (simp add: subsystem_defs)
  qed
qed

section \<open>Runs from boot\<close>

lemma world_boot_simps [simp]:
  "\<not> framework_initialized (g_tab5duino_instance world_boot)"
  "instance_ok (g_tab5duino_instance world_boot)"
  "trace world_boot = []"
  "loop_task_handle (g_tab5duino_instance world_boot) = None"
  by (simp_all add: world_boot_def instance_zero_def instance_ok_def)

lemma emitted_world_boot [simp]: "emitted world_boot w = trace w"
  by (simp add: emitted_def)

lemma tab5duino_init_env_ok:
  fixes cfg_opt :: "tab5duino_config_t option" and w :: world
  assumes ni: "\<not> framework_initialized (g_tab5duino_instance w)"
    and ok: "instance_ok (g_tab5duino_instance w)"
  defines "cfg \<equiv> effective_config cfg_opt"
  defines "w' \<equiv> snd (init_result env_ok cfg_opt w)"
  shows "fst (init_result env_ok cfg_opt w) = ESP_OK"
    and "g_tab5duino_instance w' = (g_tab5duino_instance (init_base env_ok cfg_opt w))
           \<lparr>subsystem_states := ready_states cfg TAB5_SUBSYSTEM_COUNT, framework_initialized := True\<rparr>"
    and "filter is_subsystem_log (emitted w w') = ready_events cfg TAB5_SUBSYSTEM_COUNT"
proof -
  have nf: "\<not> failed_at env_ok b k r w''" for b k r w''
    using subsystem_bringup_env_ok by (auto simp: failed_at_def)
  from tab5duino_init_run [OF ni ok, of env_ok cfg_opt] nf
  obtain evs where "fst (init_result env_ok cfg_opt w) = ESP_OK"
    and "g_tab5duino_instance w' = (g_tab5duino_instance (init_base env_ok cfg_opt w))
           \<lparr>subsystem_states := ready_states cfg TAB5_SUBSYSTEM_COUNT, framework_initialized := True\<rparr>"
    and "trace w' = trace w @ evs"
    and "filter is_subsystem_log evs = ready_events cfg TAB5_SUBSYSTEM_COUNT"
    unfolding w'_def cfg_def by blast
  then show "fst (init_result env_ok cfg_opt w) = ESP_OK"
    and "g_tab5duino_instance w' = (g_tab5duino_instance (init_base env_ok cfg_opt w))
           \<lparr>subsystem_states := ready_states cfg TAB5_SUBSYSTEM_COUNT, framework_initialized := True\<rparr>"
    and "filter is_subsystem_log (emitted w w') = ready_events cfg TAB5_SUBSYSTEM_COUNT"
    by (simp_all add: emitted_append)
qed

lemma ready_states_eval:
  "ready_states cfg TAB5_SUBSYSTEM_COUNT =
     [if auto_init_display cfg then TAB5_SUBSYSTEM_READY else TAB5_SUBSYSTEM_UNINITIALIZED,
      if auto_init_touch cfg then TAB5_SUBSYSTEM_READY else TAB5_SUBSYSTEM_UNINITIALIZED,
      if auto_init_imu cfg then TAB5_SUBSYSTEM_READY else TAB5_SUBSYSTEM_UNINITIALIZED,
      if auto_init_audio cfg then TAB5_SUBSYSTEM_READY else TAB5_SUBSYSTEM_UNINITIALIZED,
      TAB5_SUBSYSTEM_READY, TAB5_SUBSYSTEM_UNINITIALIZED, TAB5_SUBSYSTEM_UNINITIALIZED,
      if auto_init_lvgl cfg then TAB5_SUBSYSTEM_READY else TAB5_SUBSYSTEM_UNINITIALIZED]"
  by (simp add: ready_states_def auto_enabled_def subsystem_defs upt_rec)

lemma env_display_fails_simps [simp]:
  "display_hal_init env_display_fails = (ESP_FAIL, None)"
  "on_subsystem_error_bound env_display_fails"
  "calloc_handle env_display_fails"
  "xSemaphoreCreateMutex env_display_fails = Some 2"
  by (simp_all add: env_display_fails_def env_ok_def)

lemma config_all_simps [simp]:
  "effective_config (Some c) = c"
  "effective_config None = TAB5DUINO_CONFIG_DEFAULT"
  "auto_init_display config_all" "auto_init_touch config_all" "auto_init_imu config_all"
  "auto_init_audio config_all" "auto_init_lvgl config_all"
  by (simp_all add: config_all_def effective_config_def TAB5DUINO_CONFIG_DEFAULT_def)

lemma init_default_env_ok:
  "fst (init_result env_ok cfg_opt world_boot) = ESP_OK"
  "subsystem_states (g_tab5duino_instance (snd (init_result env_ok cfg_opt world_boot)))
     = ready_states (effective_config cfg_opt) TAB5_SUBSYSTEM_COUNT"
  "framework_initialized (g_tab5duino_instance (snd (init_result env_ok cfg_opt world_boot)))"
  "filter is_subsystem_log (trace (snd (init_result env_ok cfg_opt world_boot)))
     = ready_events (effective_config cfg_opt) TAB5_SUBSYSTEM_COUNT"
  using tab5duino_init_env_ok [of world_boot cfg_opt] by simp_all

section \<open>The states after init and after start\<close>

lemma world_initialized_simps [simp]:
  "framework_initialized (g_tab5duino_instance world_initialized)"
  "loop_task_handle (g_tab5duino_instance world_initialized) = None"
  "instance_ok (g_tab5duino_instance world_initialized)"
  using tab5duino_init_env_ok(2) [OF world_boot_simps(1,2), of None]
  by (simp_all add: world_initialized_def init_base_def instance_ok_def)

lemma world_started_simps [simp]:
  "framework_initialized (g_tab5duino_instance world_started)"
  "loop_task_handle (g_tab5duino_instance world_started) = Some 1"
  "fst (tab5duino_start env_ok world_initialized) = ESP_OK"
  by (simp_all add: world_started_def tab5duino_start_def Let_def env_ok_def)

section \<open>Idempotent init\<close>

text \<open>
  Claim C3. On a framework that is already initialised, \<open>tab5duino_init\<close> returns
  \<open>ESP_OK\<close> and changes nothing but the log: the instance (configuration, subsystem
  states, boot time, task handle, flags), the LVGL handle and the tick timer are what
  they were, and the only event of the call is the warning.
\<close>

theorem tab5duino_init_idempotent:
  assumes "framework_initialized (g_tab5duino_instance w)"
  shows "tab5duino_init env cfg w
           = Some (ESP_OK, emit (Log LOGW ''Framework already initialized'' []) w) \<and>
         init_result env cfg w
           = (ESP_OK, emit (Log LOGW ''Framework already initialized'' []) w) \<and>
         g_tab5duino_instance (snd (init_result env cfg w)) = g_tab5duino_instance w \<and>
         lvgl_handle (snd (init_result env cfg w)) = lvgl_handle w \<and>
         lvgl_tick_timer (snd (init_result env cfg w)) = lvgl_tick_timer w \<and>
         emitted w (snd (init_result env cfg w))
           = [Log LOGW ''Framework already initialized'' []]"
  using assms by (simp add: init_result_def tab5duino_init_def emitted_def)

theorem tab5duino_init_idempotent_witness:
  "framework_initialized (g_tab5duino_instance world_initialized) \<and>
   tab5duino_init env_display_fails (Some config_all) world_initialized
     = Some (ESP_OK, emit (Log LOGW ''Framework already initialized'' []) world_initialized) \<and>
   fst (init_result env_display_fails (Some config_all) world_initialized) = ESP_OK \<and>
   g_tab5duino_instance (snd (init_result env_display_fails (Some config_all) world_initialized))
     = g_tab5duino_instance world_initialized"
proof -
  have h: "framework_initialized (g_tab5duino_instance world_initialized)" by simp
  show ?thesis
    using h tab5duino_init_idempotent [OF h, of env_display_fails "Some config_all"] by simp
qed

section \<open>Starting the framework\<close>

text \<open>
  Claim C7. \<open>tab5duino_start\<close> returns \<open>ESP_ERR_INVALID_STATE\<close> when the framework is not
  initialised. When the loop task already exists it returns \<open>ESP_OK\<close>, leaves the
  instance as it is and only logs a warning: no task is created. When the task cannot be
  created it returns \<open>ESP_ERR_NO_MEM\<close> and the task handle is still \<open>NULL\<close>.
\<close>

theorem tab5duino_start_failures:
  "(\<not> framework_initialized (g_tab5duino_instance w) \<longrightarrow>
      fst (tab5duino_start env w) = ESP_ERR_INVALID_STATE \<and>
      g_tab5duino_instance (snd (tab5duino_start env w)) = g_tab5duino_instance w) \<and>
   (framework_initialized (g_tab5duino_instance w) \<and>
    loop_task_handle (g_tab5duino_instance w) \<noteq> None \<longrightarrow>
      fst (tab5duino_start env w) = ESP_OK \<and>
      g_tab5duino_instance (snd (tab5duino_start env w)) = g_tab5duino_instance w \<and>
      emitted w (snd (tab5duino_start env w)) = [Log LOGW ''Framework already started'' []]) \<and>
   (framework_initialized (g_tab5duino_instance w) \<and>
    loop_task_handle (g_tab5duino_instance w) = None \<and>
    xTaskCreatePinnedToCore_loop env = None \<longrightarrow>
      fst (tab5duino_start env w) = ESP_ERR_NO_MEM \<and>
      loop_task_handle (g_tab5duino_instance (snd (tab5duino_start env w))) = None)"
  by (simp add: tab5duino_start_def Let_def emitted_def)

theorem tab5duino_start_failures_witness:
  "\<not> framework_initialized (g_tab5duino_instance world_boot) \<and>
   fst (tab5duino_start env_ok world_boot) = ESP_ERR_INVALID_STATE \<and>
   framework_initialized (g_tab5duino_instance world_started) \<and>
   loop_task_handle (g_tab5duino_instance world_started) \<noteq> None \<and>
   fst (tab5duino_start env_ok world_started) = ESP_OK \<and>
   g_tab5duino_instance (snd (tab5duino_start env_ok world_started))
     = g_tab5duino_instance world_started \<and>
   framework_initialized (g_tab5duino_instance world_initialized) \<and>
   loop_task_handle (g_tab5duino_instance world_initialized) = None \<and>
   xTaskCreatePinnedToCore_loop env_no_task = None \<and>
   fst (tab5duino_start env_no_task world_initialized) = ESP_ERR_NO_MEM \<and>
   loop_task_handle (g_tab5duino_instance (snd (tab5duino_start env_no_task world_initialized)))
     = None"
  using tab5duino_start_failures [of world_boot env_ok]
    tab5duino_start_failures [of world_started env_ok]
    tab5duino_start_failures [of world_initialized env_no_task]
  by (simp add: env_no_task_def)

section \<open>Starting the LVGL integration\<close>

lemma lvgl_initialized_handle:
  "\<exists>h. lvgl_handle lvgl_initialized = Some h \<and> initialized (lvgl_context h) \<and> \<not> started h"
  unfolding lvgl_initialized_def using lvgl_tab5_init_env_ok [of None world_boot] by simp

lemma lvgl_tab5_start_env_ok_handle:
  assumes "lvgl_handle w = Some h" "initialized (lvgl_context h)" "\<not> started h"
  shows "\<exists>h'. lvgl_handle (snd (lvgl_tab5_start env_ok w)) = Some h'
          \<and> initialized (lvgl_context h') \<and> started h'"
  using assms by (simp add: lvgl_tab5_start_def env_ok_def Let_def)

lemma lvgl_started_handle:
  "\<exists>h. lvgl_handle lvgl_started = Some h \<and> initialized (lvgl_context h) \<and> started h"
  unfolding lvgl_started_def
  using lvgl_initialized_handle lvgl_tab5_start_env_ok_handle by blast

text \<open>
  Claim C8, as the code has it. \<open>lvgl_tab5_start\<close> returns \<open>ESP_ERR_INVALID_STATE\<close>, and
  does nothing, when the handle is \<open>NULL\<close> or not initialised. On a handle that is
  already started it returns \<open>ESP_OK\<close> and only logs a warning.
\<close>

theorem lvgl_tab5_start_invalid_state:
  "(lvgl_handle w = None \<longrightarrow> lvgl_tab5_start env w = (ESP_ERR_INVALID_STATE, w)) \<and>
   (lvgl_handle w = Some handle \<and> \<not> initialized (lvgl_context handle) \<longrightarrow>
      lvgl_tab5_start env w = (ESP_ERR_INVALID_STATE, w)) \<and>
   (lvgl_handle w = Some handle \<and> initialized (lvgl_context handle) \<and> started handle \<longrightarrow>
      lvgl_tab5_start env w = (ESP_OK, emit (Log LOGW ''LVGL already started'' []) w))"
  by (simp add: lvgl_tab5_start_def)

theorem lvgl_tab5_start_invalid_state_witness:
  "lvgl_handle world_boot = None \<and>
   fst (lvgl_tab5_start env_ok world_boot) = ESP_ERR_INVALID_STATE \<and>
   lvgl_handle lvgl_allocated = Some handle_zero \<and>
   \<not> initialized (lvgl_context handle_zero) \<and>
   fst (lvgl_tab5_start env_ok lvgl_allocated) = ESP_ERR_INVALID_STATE \<and>
   lvgl_handle lvgl_started \<noteq> None \<and>
   initialized (lvgl_context (the (lvgl_handle lvgl_started))) \<and>
   started (the (lvgl_handle lvgl_started)) \<and>
   fst (lvgl_tab5_start env_ok lvgl_started) = ESP_OK"
proof -
  obtain h where h: "lvgl_handle lvgl_started = Some h" "initialized (lvgl_context h)" "started h"
    using lvgl_started_handle by blast
  have a: "lvgl_handle world_boot = None" by (simp add: world_boot_def)
  have b: "lvgl_handle lvgl_allocated = Some handle_zero"
    "\<not> initialized (lvgl_context handle_zero)"
    by (simp_all add: lvgl_allocated_def handle_zero_def)
  show ?thesis
    using a b h lvgl_tab5_start_invalid_state [where w = world_boot and env = env_ok]
      lvgl_tab5_start_invalid_state [where w = lvgl_allocated and handle = handle_zero
        and env = env_ok]
      lvgl_tab5_start_invalid_state [where w = lvgl_started and handle = h and env = env_ok]
    by simp
qed

text \<open>
  The claim as the specification states it fails on a handle that is initialised and
  already started: the second start answers \<open>ESP_OK\<close>, not \<open>ESP_ERR_INVALID_STATE\<close>.
\<close>

theorem lvgl_tab5_start_twice_counterexample:
  "lvgl_handle lvgl_started \<noteq> None \<and>
   initialized (lvgl_context (the (lvgl_handle lvgl_started))) \<and>
   started (the (lvgl_handle lvgl_started)) \<and>
   fst (lvgl_tab5_start env_ok lvgl_started) = ESP_OK \<and>
   fst (lvgl_tab5_start env_ok lvgl_started) \<noteq> ESP_ERR_INVALID_STATE"
proof -
  obtain h where h: "lvgl_handle lvgl_started = Some h" "initialized (lvgl_context h)" "started h"
    using lvgl_started_handle by blast
  then show ?thesis
    by (simp add: lvgl_tab5_start_def esp_err_defs)
qed

section \<open>The input-read callback\<close>

declare first_valid_point.simps [simp del]

lemma first_valid_point_find:
  "point_count \<le> length points \<Longrightarrow> i \<le> point_count \<Longrightarrow>
   first_valid_point points point_count i data =
     Some (case find touch_point_is_valid (drop i (take point_count points)) of
             None \<Rightarrow> released data
           | Some p \<Rightarrow> pressed_at p data)"
proof (induction points point_count i data rule: first_valid_point.induct)
  case (1 points point_count i data)
  show ?case
  proof (cases "i < point_count")
    case False
    with 1 show ?thesis
      by (subst first_valid_point.simps) (simp add: released_def)
  next
    case True
    then have il: "i < length points" using 1 by simp
    have d: "drop i (take point_count points) = points ! i # drop (Suc i) (take point_count points)"
      using True il by (simp add: Cons_nth_drop_Suc [symmetric])
    show ?thesis
    proof (cases "touch_point_is_valid (points ! i)")
      case v: True
      then show ?thesis
        using True il by (subst first_valid_point.simps) (simp add: d pressed_at_def)
    next
      case nv: False
      then show ?thesis
        using True il 1
        by (subst first_valid_point.simps) (simp add: d)
    qed
  qed
qed

text \<open>
  Claim C6. Let the touch HAL answer status \<open>ret\<close>, the array \<open>points\<close> and the count
  \<open>point_count\<close>, the count within the array. The callback reports "released" when
  \<open>ret\<close> is an error or the count is zero, and "released" when none of the first
  \<open>point_count\<close> points is valid; otherwise it reports "pressed" with the coordinates of
  the first valid one among them, in the order of the array. A point is valid iff its
  flag is set and its pressure is not zero. Without a handle or a touch HAL the callback
  reports "released" and does not poll.
\<close>

theorem touchpad_read_cb_reports:
  assumes "touch_hal_read_points env = (ret, points, point_count)"
    and "length points = TOUCH_MAX_POINTS"
    and "unat point_count \<le> TOUCH_MAX_POINTS"
  shows "(lvgl_handle w = Some handle \<and> touch_hal (lvgl_context handle) \<noteq> None \<longrightarrow>
            fst (touchpad_read_cb env data w) =
              Some (if ret \<noteq> ESP_OK \<or> point_count = 0 then released data
                    else case find touch_point_is_valid (take (unat point_count) points) of
                           None \<Rightarrow> released data
                         | Some p \<Rightarrow> pressed_at p data))
       \<and> (lvgl_handle w = None \<or>
            (lvgl_handle w = Some handle \<and> touch_hal (lvgl_context handle) = None) \<longrightarrow>
            touchpad_read_cb env data w = (Some (released data), w))
       \<and> (\<forall>p. touch_point_is_valid p \<longleftrightarrow> tp_is_valid p \<and> tp_pressure p \<noteq> 0)"
  using assms first_valid_point_find [of "unat point_count" points 0 data]
  by (auto simp: touchpad_read_cb_def Let_def released_def touch_point_is_valid_def
      word_greater_zero_iff)

theorem touchpad_read_cb_reports_witness:
  "touch_hal_read_points env_touch = (ESP_OK, touch_points, 2) \<and>
   length touch_points = TOUCH_MAX_POINTS \<and> unat (2 :: 8 word) \<le> TOUCH_MAX_POINTS \<and>
   lvgl_handle world_touch
     = Some (handle_zero\<lparr>lvgl_context := (lvgl_context handle_zero)\<lparr>touch_hal := Some 4\<rparr>\<rparr>) \<and>
   fst (touchpad_read_cb env_touch data_zero world_touch)
     = Some \<lparr>point_x = 100, point_y = 200, indev_state = LV_INDEV_STATE_PR\<rparr>"
proof -
  have a: "touch_hal_read_points env_touch = (ESP_OK, touch_points, 2)"
    by (simp add: env_touch_def)
  have b: "length touch_points = TOUCH_MAX_POINTS"
    by (simp add: touch_points_def TOUCH_MAX_POINTS_def)
  have c: "unat (2 :: 8 word) \<le> TOUCH_MAX_POINTS"
    by (simp add: TOUCH_MAX_POINTS_def)
  have d: "lvgl_handle world_touch
     = Some (handle_zero\<lparr>lvgl_context := (lvgl_context handle_zero)\<lparr>touch_hal := Some 4\<rparr>\<rparr>)"
    by (simp add: world_touch_def)
  have e: "take 2 touch_points =
     [\<lparr>tp_x = 10, tp_y = 20, tp_pressure = 0, tp_size = 1, tp_id = 0, tp_is_valid = True\<rparr>,
      \<lparr>tp_x = 100, tp_y = 200, tp_pressure = 50, tp_size = 3, tp_id = 1, tp_is_valid = True\<rparr>]"
    by (simp add: touch_points_def)
  show ?thesis
    using a b c d
      touchpad_read_cb_reports [OF a b c, where w = world_touch and data = data_zero
        and handle = "handle_zero\<lparr>lvgl_context := (lvgl_context handle_zero)\<lparr>touch_hal := Some 4\<rparr>\<rparr>"]
    by (simp add: e touch_point_is_valid_def pressed_at_def data_zero_def esp_err_defs)
qed

section \<open>Tearing the framework down\<close>



lemma config_set_state [simp]:
  "config (g_tab5duino_instance (set_state s v w)) = config (g_tab5duino_instance w)"
  by (simp add: set_state_def)








lemma is_deinit_log_simps [simp]:
  "is_deinit_log (deinit_log s)"
  "\<not> is_deinit_log (Call f args)"
  "\<not> is_deinit_log (Log LOGI ''Framework stopped'' [])"
  "\<not> is_deinit_log (Log LOGI ''Framework deinitialized'' [])"
  by (simp_all add: is_deinit_log_def deinit_log_def)


subsection \<open>The order in which a run attempts the subsystems\<close>

lemma is_init_log_simps [simp]:
  "is_init_log (init_log s)" "\<not> is_init_log (ready_log s)" "\<not> is_init_log (failed_log s r)"
  "\<not> is_init_log (Hook_on_subsystem_error s r)"
  by (simp_all add: is_init_log_def init_log_def ready_log_def failed_log_def)




lemma filter_init_log_init_events [simp]: "filter is_init_log (init_events env k r) = []"
  by (simp add: init_events_def)




subsection \<open>The status of a bring-up depends on the environment only\<close>

lemma fst_cleanup [simp]: "fst (cleanup ret w) = ret"
  by (simp add: cleanup_def)

lemma lvgl_tab5_init_drivers_status:
  "fst (lvgl_tab5_init_drivers env w) = drivers_status env"
  by (simp add: lvgl_tab5_init_drivers_def Let_def drivers_status_def)

lemma handle_set_context_None [simp]:
  "(lvgl_handle (set_context f w) = None) = (lvgl_handle w = None)"
  by (simp add: set_context_def)

lemma lvgl_tab5_init_buffers_status:
  assumes "lvgl_handle w \<noteq> None"
  shows "fst (lvgl_tab5_init_buffers env cfg w) = buffers_status env cfg"
  using assms
  by (auto simp: lvgl_tab5_init_buffers_def Let_def lvgl_tab5_init_drivers_status
      buffers_status_def)

lemma lvgl_tab5_init_status:
  "fst (lvgl_tab5_init env cfg_opt w) =
     init_status env (case cfg_opt of Some c \<Rightarrow> c | None \<Rightarrow> LVGL_TAB5_CONFIG_DEFAULT)"
  by (auto simp: lvgl_tab5_init_def Let_def lvgl_tab5_init_buffers_status init_status_def)

lemma lvgl_tab5_init_drivers_handle:
  assumes "lvgl_handle w = Some h" "fst (lvgl_tab5_init_drivers env w) = ESP_OK"
  shows "\<exists>h'. lvgl_handle (snd (lvgl_tab5_init_drivers env w)) = Some h'
          \<and> initialized (lvgl_context h') \<and> started h' = started h"
  using assms
  by (auto simp: lvgl_tab5_init_drivers_def Let_def esp_err_defs split: if_splits)

lemma started_of_simps [simp]:
  "started_of (set_context f w) = started_of w"
  "started_of (emit e w) = started_of w"
  "started_of (w\<lparr>lvgl_handle := Some h\<rparr>) = Some (started h)"
  by (cases "lvgl_handle w"; simp add: started_of_def set_context_def)+

lemma started_of_Some: "started_of w = Some b \<Longrightarrow> \<exists>h. lvgl_handle w = Some h \<and> started h = b"
  by (auto simp: started_of_def)

lemma lvgl_tab5_init_buffers_handle:
  assumes "lvgl_handle w = Some h" "fst (lvgl_tab5_init_buffers env cfg w) = ESP_OK"
  shows "\<exists>h'. lvgl_handle (snd (lvgl_tab5_init_buffers env cfg w)) = Some h'
          \<and> initialized (lvgl_context h') \<and> started h' = started h"
proof -
  have nf: "heap_caps_malloc_buffer1 env \<noteq> None"
    "enable_double_buffer cfg \<longrightarrow> heap_caps_malloc_buffer2 env \<noteq> None"
    "malloc_draw_buffer env \<noteq> None"
    using assms lvgl_tab5_init_buffers_status [of w env cfg]
    by (auto simp: buffers_status_def esp_err_defs split: if_splits)
  define w1 where "w1 =
    set_context (\<lambda>c. c\<lparr>draw_buffer := malloc_draw_buffer env\<rparr>)
      (emit (Call ''malloc'' [])
        (emit (if use_psram_buffers cfg \<and> esp_psram_is_initialized env
               then Log LOGI ''Allocated display buffers in PSRAM (%zu bytes each)''
                      [ArgD (1280 * uint (buffer_lines cfg) * 2)]
               else Log LOGI ''Allocated display buffers in internal RAM (%zu bytes each)''
                      [ArgD (1280 * uint (buffer_lines cfg) * 2)])
          (if enable_double_buffer cfg
           then set_context (\<lambda>c. c\<lparr>buffer2 := heap_caps_malloc_buffer2 env\<rparr>)
                  (emit (Call ''heap_caps_malloc'' [])
                    (set_context (\<lambda>c. c\<lparr>buffer1 := heap_caps_malloc_buffer1 env\<rparr>)
                      (emit (Call ''heap_caps_malloc'' []) w)))
           else set_context (\<lambda>c. c\<lparr>buffer1 := heap_caps_malloc_buffer1 env\<rparr>)
                  (emit (Call ''heap_caps_malloc'' []) w))))"
  have eq: "lvgl_tab5_init_buffers env cfg w = lvgl_tab5_init_drivers env w1"
    using nf assms(1)
    by (auto simp: lvgl_tab5_init_buffers_def Let_def w1_def)
  have "started_of w = Some (started h)"
    using assms(1) by (simp add: started_of_def)
  then have "started_of w1 = Some (started h)"
    by (simp add: w1_def)
  then obtain h1 where h1: "lvgl_handle w1 = Some h1" "started h1 = started h"
    by (auto dest: started_of_Some)
  show ?thesis
    using lvgl_tab5_init_drivers_handle [OF h1(1), of env] assms(2) h1(2)
    by (simp add: eq)
qed

lemma lvgl_tab5_init_handle:
  assumes "fst (lvgl_tab5_init env cfg_opt w) = ESP_OK"
  shows "\<exists>h. lvgl_handle (snd (lvgl_tab5_init env cfg_opt w)) = Some h
          \<and> initialized (lvgl_context h) \<and> \<not> started h"
proof -
  let ?cfg = "case cfg_opt of Some c \<Rightarrow> c | None \<Rightarrow> LVGL_TAB5_CONFIG_DEFAULT"
  have nf: "calloc_handle env" "xSemaphoreCreateMutex env \<noteq> None"
    "fst (display_hal_init env) = ESP_OK" "fst (touch_hal_init env) = ESP_OK"
    using assms lvgl_tab5_init_status [of env cfg_opt w]
    by (auto simp: init_status_def esp_err_defs split: if_splits)
  define w1 where "w1 =
    set_context (\<lambda>c. c\<lparr>touch_hal := snd (touch_hal_init env)\<rparr>)
      (emit (Call ''touch_hal_init'' [])
        (set_context (\<lambda>c. c\<lparr>display_hal := snd (display_hal_init env)\<rparr>)
          (emit (Call ''display_hal_init'' [])
            (set_context (\<lambda>c. c\<lparr>lvgl_mutex := xSemaphoreCreateMutex env\<rparr>)
              (emit (Call ''xSemaphoreCreateMutex'' [])
                (emit (Call ''lv_log_register_print_cb'' [])
                  (emit (Call ''lv_init'' [])
                    ((emit (Log LOGI ''Initializing LVGL Tab5duino integration'' []) w)
                       \<lparr>lvgl_handle := Some (handle_zero\<lparr>lvgl_config := ?cfg\<rparr>)\<rparr>))))))))"
  have eq: "lvgl_tab5_init env cfg_opt w = lvgl_tab5_init_buffers env ?cfg w1"
    using nf by (auto simp: lvgl_tab5_init_def Let_def w1_def)
  have "started_of w1 = Some False"
    by (simp add: w1_def handle_zero_def)
  then obtain h1 where h1: "lvgl_handle w1 = Some h1" "started h1 = False"
    by (auto dest: started_of_Some)
  show ?thesis
    using lvgl_tab5_init_buffers_handle [OF h1(1), of env ?cfg] assms h1(2)
    by (simp add: eq)
qed

lemma lvgl_tab5_start_status:
  assumes "lvgl_handle w = Some h" "initialized (lvgl_context h)" "\<not> started h"
  shows "fst (lvgl_tab5_start env w) = start_status env"
  using assms by (auto simp: lvgl_tab5_start_def Let_def start_status_def split: option.splits)

lemma subsystem_bringup_status: "fst (subsystem_bringup env s w) = bringup_status env s"
proof (cases "s = TAB5_SUBSYSTEM_LVGL")
  case False
  then show ?thesis by (simp add: subsystem_bringup_def bringup_status_def)
next
  case True
  let ?i = "lvgl_tab5_init env (Some LVGL_TAB5_CONFIG_DEFAULT) w"
  have e: "fst ?i = init_status env LVGL_TAB5_CONFIG_DEFAULT"
    by (simp add: lvgl_tab5_init_status)
  show ?thesis
  proof (cases "fst ?i = ESP_OK")
    case False
    then show ?thesis using e True
      by (auto simp: subsystem_bringup_def bringup_status_def split: prod.splits)
  next
    case ok: True
    obtain h where h: "lvgl_handle (snd ?i) = Some h" "initialized (lvgl_context h)" "\<not> started h"
      using lvgl_tab5_init_handle [OF ok] by blast
    have "fst (lvgl_tab5_start env (snd ?i)) = start_status env"
      by (rule lvgl_tab5_start_status [OF h])
    then show ?thesis using e ok True
      by (auto simp: subsystem_bringup_def bringup_status_def split: prod.splits)
  qed
qed

lemma brought_up_status:
  "brought_up env cfg k = (\<forall>s<k. auto_enabled cfg s \<longrightarrow> bringup_status env s = ESP_OK)"
  by (simp add: brought_up_def subsystem_bringup_status)

lemma failed_at_status: "failed_at env b k r w \<Longrightarrow> r = bringup_status env k"
  by (auto simp: failed_at_def subsystem_bringup_status)



subsection \<open>The teardown\<close>


lemma filter_deinit_log_map [simp]: "filter is_deinit_log (map deinit_log xs) = map deinit_log xs"
  by (induction xs) simp_all



section \<open>The events and states of every run of tab5duino\_init\<close>

text \<open>
  The bring-up of the subsystems below LVGL cannot fail, so a run attempts every enabled
  subsystem, and the only status that \<open>tab5duino_init\<close> can pass on is that of the
  bring-up of LVGL, the last step.
\<close>

lemma bringup_status_placeholder:
  "s < TAB5_SUBSYSTEM_LVGL \<Longrightarrow> bringup_status env s = ESP_OK"
  by (simp add: bringup_status_def)

lemma brought_up_lvgl: "brought_up env cfg TAB5_SUBSYSTEM_LVGL"
  by (simp add: brought_up_status bringup_status_placeholder)

lemma failed_at_lvgl:
  assumes "failed_at env b k r w"
  shows "k = TAB5_SUBSYSTEM_LVGL"
proof -
  have "k < TAB5_SUBSYSTEM_COUNT" "bringup_status env k \<noteq> ESP_OK"
    using assms failed_at_status [OF assms] by (simp_all add: failed_at_def)
  then have "\<not> k < TAB5_SUBSYSTEM_LVGL" and "k < TAB5_SUBSYSTEM_COUNT"
    using bringup_status_placeholder [of k env] by auto
  then show ?thesis by (simp add: subsystem_defs)
qed

lemma tab5duino_init_events:
  fixes env :: env and cfg_opt :: "tab5duino_config_t option" and w :: world
  assumes ni: "\<not> framework_initialized (g_tab5duino_instance w)"
    and ok: "instance_ok (g_tab5duino_instance w)"
  defines "cfg \<equiv> effective_config cfg_opt"
  defines "r \<equiv> fst (init_result env cfg_opt w)"
  defines "w' \<equiv> snd (init_result env cfg_opt w)"
  defines "s7 \<equiv> bringup_status env TAB5_SUBSYSTEM_LVGL"
  shows "r = (if auto_init_lvgl cfg then s7 else ESP_OK)"
    and "filter is_subsystem_log (emitted w w')
           = ready_events cfg TAB5_SUBSYSTEM_LVGL
             @ (if auto_init_lvgl cfg
                then init_log TAB5_SUBSYSTEM_LVGL # init_events env TAB5_SUBSYSTEM_LVGL s7 else [])"
    and "subsystem_states (g_tab5duino_instance w')
           = (ready_states cfg TAB5_SUBSYSTEM_LVGL)
               [TAB5_SUBSYSTEM_LVGL :=
                  if auto_init_lvgl cfg
                  then (if s7 = ESP_OK then TAB5_SUBSYSTEM_READY else TAB5_SUBSYSTEM_ERROR)
                  else TAB5_SUBSYSTEM_UNINITIALIZED]"
    and "framework_initialized (g_tab5duino_instance w') \<longleftrightarrow> r = ESP_OK"
proof -
  let ?b = "init_base env cfg_opt w"
  have en7: "auto_enabled cfg 7 = auto_init_lvgl cfg"
    by (simp add: auto_enabled_def subsystem_defs)
  have re8: "ready_events cfg 8 = ready_events cfg 7 @ (if auto_enabled cfg 7 then [init_log 7, ready_log 7] else [])"
    using ready_events_step [of cfg 7] ready_events_skip [of cfg 7] by (simp add: eval_nat_numeral)
  have rs8: "ready_states cfg 8 = (ready_states cfg 7)[7 := if auto_enabled cfg 7 then TAB5_SUBSYSTEM_READY else TAB5_SUBSYSTEM_UNINITIALIZED]"
    by (auto simp: list_eq_iff_nth_eq ready_states_nth nth_list_update subsystem_defs less_Suc_eq eval_nat_numeral)
  have all: "r = (if auto_init_lvgl cfg then s7 else ESP_OK)
    \<and> filter is_subsystem_log (emitted w w')
           = ready_events cfg 7 @ (if auto_init_lvgl cfg then init_log 7 # init_events env 7 s7 else [])
    \<and> subsystem_states (g_tab5duino_instance w')
           = (ready_states cfg 7)[7 := if auto_init_lvgl cfg
                  then (if s7 = ESP_OK then TAB5_SUBSYSTEM_READY else TAB5_SUBSYSTEM_ERROR)
                  else TAB5_SUBSYSTEM_UNINITIALIZED]
    \<and> (framework_initialized (g_tab5duino_instance w') \<longleftrightarrow> r = ESP_OK)"
    using tab5duino_init_run [OF ni ok, of env cfg_opt, folded w'_def cfg_def r_def]
  proof (elim disjE conjE exE)
    fix evs
    assume r: "r = ESP_OK"
      and bu: "brought_up env cfg TAB5_SUBSYSTEM_COUNT"
      and g: "g_tab5duino_instance w' = (g_tab5duino_instance ?b)
                 \<lparr>subsystem_states := ready_states cfg TAB5_SUBSYSTEM_COUNT, framework_initialized := True\<rparr>"
      and t: "trace w' = trace w @ evs"
      and f: "filter is_subsystem_log evs = ready_events cfg TAB5_SUBSYSTEM_COUNT"
    have s: "auto_init_lvgl cfg \<longrightarrow> s7 = ESP_OK"
      using bu en7 by (simp add: brought_up_status s7_def subsystem_defs)
    show ?thesis
      using r g f s emitted_append [OF t]
      by (simp add: subsystem_defs re8 rs8 en7 init_events_def)
  next
    fix k
    assume fa: "failed_at env ?b k r w'"
    have k: "k = 7" using failed_at_lvgl [OF fa] by (simp add: subsystem_defs)
    have rs: "r = s7" using failed_at_status [OF fa] k by (simp add: s7_def subsystem_defs)
    from fa obtain evs where en: "auto_enabled cfg 7" and bad: "r \<noteq> ESP_OK"
      and g: "g_tab5duino_instance w' = (g_tab5duino_instance ?b)
                \<lparr>subsystem_states := (ready_states cfg 7)[7 := TAB5_SUBSYSTEM_ERROR]\<rparr>"
      and t: "trace w' = trace w @ evs"
      and f: "filter is_subsystem_log evs = ready_events cfg 7 @ init_log 7 # init_events env 7 r"
      unfolding k by (auto simp: failed_at_def cfg_def)
    show ?thesis
      using en bad g f rs ni emitted_append [OF t]
      by (simp add: en7 init_base_def)
  qed
  then show "r = (if auto_init_lvgl cfg then s7 else ESP_OK)"
    and "filter is_subsystem_log (emitted w w')
           = ready_events cfg TAB5_SUBSYSTEM_LVGL
             @ (if auto_init_lvgl cfg
                then init_log TAB5_SUBSYSTEM_LVGL # init_events env TAB5_SUBSYSTEM_LVGL s7 else [])"
    and "subsystem_states (g_tab5duino_instance w')
           = (ready_states cfg TAB5_SUBSYSTEM_LVGL)
               [TAB5_SUBSYSTEM_LVGL :=
                  if auto_init_lvgl cfg
                  then (if s7 = ESP_OK then TAB5_SUBSYSTEM_READY else TAB5_SUBSYSTEM_ERROR)
                  else TAB5_SUBSYSTEM_UNINITIALIZED]"
    and "framework_initialized (g_tab5duino_instance w') \<longleftrightarrow> r = ESP_OK"
    by (simp_all add: TAB5_SUBSYSTEM_LVGL_def)
qed

lemma init_attempts_facts:
  fixes env :: env and cfg_opt :: "tab5duino_config_t option" and w :: world
  assumes ni: "\<not> framework_initialized (g_tab5duino_instance w)"
    and ok: "instance_ok (g_tab5duino_instance w)"
  defines "cfg \<equiv> effective_config cfg_opt"
  defines "r \<equiv> fst (init_result env cfg_opt w)"
  defines "w' \<equiv> snd (init_result env cfg_opt w)"
  defines "evs \<equiv> emitted w w'"
  shows "\<forall>k<TAB5_SUBSYSTEM_COUNT.
           (init_log k \<in> set evs \<longleftrightarrow> auto_enabled cfg k)
           \<and> (auto_enabled cfg k \<and> k \<noteq> TAB5_SUBSYSTEM_LVGL \<longrightarrow>
                state_of w' k = TAB5_SUBSYSTEM_READY \<and> ready_log k \<in> set evs)
           \<and> (\<not> auto_enabled cfg k \<longrightarrow> state_of w' k = TAB5_SUBSYSTEM_UNINITIALIZED)
           \<and> (state_of w' k = TAB5_SUBSYSTEM_ERROR \<longleftrightarrow>
                k = TAB5_SUBSYSTEM_LVGL \<and> auto_init_lvgl cfg \<and> r \<noteq> ESP_OK)
           \<and> (state_of w' k = TAB5_SUBSYSTEM_ERROR \<longrightarrow>
                failed_log k r \<in> set evs
                \<and> (on_subsystem_error_bound env \<longrightarrow> Hook_on_subsystem_error k r \<in> set evs))"
    and "auto_init_lvgl cfg \<longrightarrow> state_of w' TAB5_SUBSYSTEM_LVGL
            = (if r = ESP_OK then TAB5_SUBSYSTEM_READY else TAB5_SUBSYSTEM_ERROR)"
    and "r \<noteq> ESP_OK \<longrightarrow> auto_init_lvgl cfg"
proof -
  define s7 where "s7 = bringup_status env TAB5_SUBSYSTEM_LVGL"
  define L where "L = filter is_subsystem_log evs"
  note ev = tab5duino_init_events [OF ni ok, of env cfg_opt, folded cfg_def r_def w'_def s7_def evs_def L_def]
  have mem: "e \<in> set evs \<longleftrightarrow> e \<in> set L" if "is_subsystem_log e" for e
    using that by (simp add: L_def)
  have en7: "auto_enabled cfg 7 = auto_init_lvgl cfg"
    by (simp add: auto_enabled_def subsystem_defs)
  have st: "state_of w' k = (if k = 7 then (if auto_init_lvgl cfg
                  then (if s7 = ESP_OK then TAB5_SUBSYSTEM_READY else TAB5_SUBSYSTEM_ERROR)
                  else TAB5_SUBSYSTEM_UNINITIALIZED)
               else if auto_enabled cfg k then TAB5_SUBSYSTEM_READY else TAB5_SUBSYSTEM_UNINITIALIZED)"
    if "k < TAB5_SUBSYSTEM_COUNT" for k
    using that unfolding state_of_def ev(3)
    by (auto simp: nth_list_update ready_states_nth subsystem_defs)
  have il: "init_log k \<in> set L \<longleftrightarrow> auto_enabled cfg k" if "k < TAB5_SUBSYSTEM_COUNT" for k
  proof (cases "k = 7")
    case True
    then show ?thesis
      using init_log_in_ready_events [of 7 7 cfg]
      by (simp add: ev(2) subsystem_defs en7)
  next
    case False
    then have "k < 7" and "init_log k \<noteq> init_log 7"
      using that init_log_inj [of k 7] by (auto simp: subsystem_defs)
    then show ?thesis
      using init_log_in_ready_events [of k 7 cfg]
      by (simp add: ev(2) subsystem_defs)
  qed
  have rl: "ready_log k \<in> set L" if "k < 7" "auto_enabled cfg k" for k
    using that ready_log_in_ready_events [of k 7 cfg]
    by (auto simp: ev(2) subsystem_defs)
  have fl: "failed_log 7 r \<in> set L
            \<and> (on_subsystem_error_bound env \<longrightarrow> Hook_on_subsystem_error 7 r \<in> set L)"
    if "auto_init_lvgl cfg" "r \<noteq> ESP_OK"
    using that ev(1) by (simp add: ev(2) subsystem_defs init_events_def)
  show "\<forall>k<TAB5_SUBSYSTEM_COUNT.
           (init_log k \<in> set evs \<longleftrightarrow> auto_enabled cfg k)
           \<and> (auto_enabled cfg k \<and> k \<noteq> TAB5_SUBSYSTEM_LVGL \<longrightarrow>
                state_of w' k = TAB5_SUBSYSTEM_READY \<and> ready_log k \<in> set evs)
           \<and> (\<not> auto_enabled cfg k \<longrightarrow> state_of w' k = TAB5_SUBSYSTEM_UNINITIALIZED)
           \<and> (state_of w' k = TAB5_SUBSYSTEM_ERROR \<longleftrightarrow>
                k = TAB5_SUBSYSTEM_LVGL \<and> auto_init_lvgl cfg \<and> r \<noteq> ESP_OK)
           \<and> (state_of w' k = TAB5_SUBSYSTEM_ERROR \<longrightarrow>
                failed_log k r \<in> set evs
                \<and> (on_subsystem_error_bound env \<longrightarrow> Hook_on_subsystem_error k r \<in> set evs))"
  proof (intro allI impI)
    fix k assume k: "k < TAB5_SUBSYSTEM_COUNT"
    have k7: "k \<noteq> 7 \<Longrightarrow> k < 7" using k by (simp add: subsystem_defs)
    show "(init_log k \<in> set evs \<longleftrightarrow> auto_enabled cfg k)
           \<and> (auto_enabled cfg k \<and> k \<noteq> TAB5_SUBSYSTEM_LVGL \<longrightarrow>
                state_of w' k = TAB5_SUBSYSTEM_READY \<and> ready_log k \<in> set evs)
           \<and> (\<not> auto_enabled cfg k \<longrightarrow> state_of w' k = TAB5_SUBSYSTEM_UNINITIALIZED)
           \<and> (state_of w' k = TAB5_SUBSYSTEM_ERROR \<longleftrightarrow>
                k = TAB5_SUBSYSTEM_LVGL \<and> auto_init_lvgl cfg \<and> r \<noteq> ESP_OK)
           \<and> (state_of w' k = TAB5_SUBSYSTEM_ERROR \<longrightarrow>
                failed_log k r \<in> set evs
                \<and> (on_subsystem_error_bound env \<longrightarrow> Hook_on_subsystem_error k r \<in> set evs))"
      using st [OF k] il [OF k] rl [of k] fl k7 ev(1) en7
      by (auto simp: mem TAB5_SUBSYSTEM_LVGL_def)
  qed
  show "auto_init_lvgl cfg \<longrightarrow> state_of w' TAB5_SUBSYSTEM_LVGL
            = (if r = ESP_OK then TAB5_SUBSYSTEM_READY else TAB5_SUBSYSTEM_ERROR)"
    using st [of 7] ev(1) by (simp add: subsystem_defs)
  show "r \<noteq> ESP_OK \<longrightarrow> auto_init_lvgl cfg"
    using ev(1) by auto
qed

section \<open>A failing subsystem during init\<close>




section \<open>The place of LVGL in the init order\<close>

lemma lvgl_attempted_last_facts:
  fixes env :: env and cfg_opt :: "tab5duino_config_t option" and w :: world
  assumes ni: "\<not> framework_initialized (g_tab5duino_instance w)"
    and ok: "instance_ok (g_tab5duino_instance w)"
    and lv: "auto_init_lvgl (effective_config cfg_opt)"
    and k: "k < TAB5_SUBSYSTEM_LVGL" and en: "auto_enabled (effective_config cfg_opt) k"
  defines "evs \<equiv> emitted w (snd (init_result env cfg_opt w))"
  shows "before (init_log k) (init_log TAB5_SUBSYSTEM_LVGL) evs"
    and "before (ready_log k) (init_log TAB5_SUBSYSTEM_LVGL) evs"
proof -
  let ?cfg = "effective_config cfg_opt"
  define L where "L = filter is_subsystem_log evs"
  have bef: "before a b evs \<longleftrightarrow> before a b L" if "is_subsystem_log a" "is_subsystem_log b" for a b
    using that by (simp add: L_def before_filter)
  obtain rest where L: "L = ready_events ?cfg 7 @ init_log 7 # rest"
    using tab5duino_init_events(2) [OF ni ok, where env = env and cfg_opt = cfg_opt] lv
    by (simp add: L_def evs_def subsystem_defs)
  have i7: "init_log 7 \<notin> set (ready_events ?cfg 7)"
    using init_log_in_ready_events [of 7 7 ?cfg] by (simp add: subsystem_defs)
  have mem: "init_log k \<in> set (ready_events ?cfg 7)" "ready_log k \<in> set (ready_events ?cfg 7)"
    using k en init_log_in_ready_events [of k 7 ?cfg] ready_log_in_ready_events [of k 7 ?cfg]
    by (simp_all add: subsystem_defs)
  have "before (init_log k) (init_log 7) L" "before (ready_log k) (init_log 7) L"
    unfolding L by (rule before_append [OF i7 mem(1)], rule before_append [OF i7 mem(2)])
  then show "before (init_log k) (init_log TAB5_SUBSYSTEM_LVGL) evs"
    and "before (ready_log k) (init_log TAB5_SUBSYSTEM_LVGL) evs"
    by (simp_all add: bef TAB5_SUBSYSTEM_LVGL_def)
qed

lemma lvgl_ready_reported:
  fixes env :: env and cfg_opt :: "tab5duino_config_t option" and w :: world
  assumes ni: "\<not> framework_initialized (g_tab5duino_instance w)"
    and ok: "instance_ok (g_tab5duino_instance w)"
    and rd: "state_of (snd (init_result env cfg_opt w)) TAB5_SUBSYSTEM_LVGL = TAB5_SUBSYSTEM_READY"
  shows "ready_log TAB5_SUBSYSTEM_LVGL \<in> set (emitted w (snd (init_result env cfg_opt w)))"
proof -
  let ?cfg = "effective_config cfg_opt"
  let ?evs = "emitted w (snd (init_result env cfg_opt w))"
  note ev = tab5duino_init_events [OF ni ok, where env = env and cfg_opt = cfg_opt]
  have "auto_init_lvgl ?cfg \<and> bringup_status env TAB5_SUBSYSTEM_LVGL = ESP_OK"
    using rd unfolding state_of_def ev(3)
    by (auto simp: subsystem_defs ready_states_def split: if_splits)
  then have "ready_log TAB5_SUBSYSTEM_LVGL \<in> set (filter is_subsystem_log ?evs)"
    unfolding ev(2) by (simp add: init_events_def)
  then show ?thesis by simp
qed

text \<open>
  Claim C2, as the code has it. Take a run of \<open>tab5duino_init\<close> on a framework that is
  not yet initialised; the call returns. The init of LVGL is attempted exactly when the
  flag \<open>auto_init_lvgl\<close> is set, whatever the flags of display and touch are. LVGL
  leaves \<open>UNINITIALIZED\<close> only through that attempt, and it is \<open>READY\<close> only when it has
  been reported ready, after the attempt started. When the attempt is made it is the
  last one: every enabled subsystem before LVGL, display and touch among them, has been
  attempted and reported ready before the attempt on LVGL starts, and is \<open>READY\<close>. A
  subsystem whose flag is clear, display and touch among them, is not attempted by
  \<open>tab5duino_init\<close> and stays \<open>UNINITIALIZED\<close>.
\<close>

theorem lvgl_after_enabled_prerequisites:
  fixes env :: env and cfg_opt :: "tab5duino_config_t option" and w :: world
  assumes "\<not> framework_initialized (g_tab5duino_instance w)"
    and "instance_ok (g_tab5duino_instance w)"
  defines "cfg \<equiv> effective_config cfg_opt"
  defines "w' \<equiv> snd (init_result env cfg_opt w)"
  defines "evs \<equiv> emitted w w'"
  shows "tab5duino_init env cfg_opt w = Some (init_result env cfg_opt w)
       \<and> (init_log TAB5_SUBSYSTEM_LVGL \<in> set evs \<longleftrightarrow> auto_init_lvgl cfg)
       \<and> (state_of w' TAB5_SUBSYSTEM_LVGL \<noteq> TAB5_SUBSYSTEM_UNINITIALIZED \<longrightarrow>
            init_log TAB5_SUBSYSTEM_LVGL \<in> set evs)
       \<and> (state_of w' TAB5_SUBSYSTEM_LVGL = TAB5_SUBSYSTEM_READY \<longrightarrow>
            ready_log TAB5_SUBSYSTEM_LVGL \<in> set evs)
       \<and> (ready_log TAB5_SUBSYSTEM_LVGL \<in> set evs \<longrightarrow>
            before (init_log TAB5_SUBSYSTEM_LVGL) (ready_log TAB5_SUBSYSTEM_LVGL) evs)
       \<and> (auto_init_lvgl cfg \<longrightarrow>
            (\<forall>k<TAB5_SUBSYSTEM_LVGL. auto_enabled cfg k \<longrightarrow>
               before (init_log k) (init_log TAB5_SUBSYSTEM_LVGL) evs
               \<and> before (ready_log k) (init_log TAB5_SUBSYSTEM_LVGL) evs
               \<and> state_of w' k = TAB5_SUBSYSTEM_READY)
          \<and> (auto_init_display cfg \<longrightarrow>
               before (ready_log TAB5_SUBSYSTEM_DISPLAY) (init_log TAB5_SUBSYSTEM_LVGL) evs
               \<and> state_of w' TAB5_SUBSYSTEM_DISPLAY = TAB5_SUBSYSTEM_READY)
          \<and> (auto_init_touch cfg \<longrightarrow>
               before (ready_log TAB5_SUBSYSTEM_TOUCH) (init_log TAB5_SUBSYSTEM_LVGL) evs
               \<and> state_of w' TAB5_SUBSYSTEM_TOUCH = TAB5_SUBSYSTEM_READY))
       \<and> (\<forall>k<TAB5_SUBSYSTEM_LVGL. \<not> auto_enabled cfg k \<longrightarrow>
            init_log k \<notin> set evs \<and> state_of w' k = TAB5_SUBSYSTEM_UNINITIALIZED)
       \<and> (\<not> auto_init_display cfg \<longrightarrow>
            init_log TAB5_SUBSYSTEM_DISPLAY \<notin> set evs
            \<and> state_of w' TAB5_SUBSYSTEM_DISPLAY = TAB5_SUBSYSTEM_UNINITIALIZED)
       \<and> (\<not> auto_init_touch cfg \<longrightarrow>
            init_log TAB5_SUBSYSTEM_TOUCH \<notin> set evs
            \<and> state_of w' TAB5_SUBSYSTEM_TOUCH = TAB5_SUBSYSTEM_UNINITIALIZED)"
proof -
  note f = init_attempts_facts [OF assms(1,2), where env = env and cfg_opt = cfg_opt,
      folded cfg_def w'_def evs_def]
  note p = lvgl_after_prerequisites_facts [OF assms(1,2), where env = env and cfg_opt = cfg_opt,
      folded cfg_def w'_def evs_def]
  note l = lvgl_attempted_last_facts [OF assms(1,2), where env = env and cfg_opt = cfg_opt,
      folded cfg_def w'_def evs_def]
  have lt: "TAB5_SUBSYSTEM_LVGL < TAB5_SUBSYSTEM_COUNT" "TAB5_SUBSYSTEM_DISPLAY < TAB5_SUBSYSTEM_LVGL"
    "TAB5_SUBSYSTEM_TOUCH < TAB5_SUBSYSTEM_LVGL"
    and below: "\<And>k. k < TAB5_SUBSYSTEM_LVGL \<Longrightarrow> k < TAB5_SUBSYSTEM_COUNT \<and> k \<noteq> TAB5_SUBSYSTEM_LVGL"
    by (simp_all add: subsystem_defs)
  have en: "auto_enabled cfg TAB5_SUBSYSTEM_LVGL = auto_init_lvgl cfg"
    "auto_enabled cfg TAB5_SUBSYSTEM_DISPLAY = auto_init_display cfg"
    "auto_enabled cfg TAB5_SUBSYSTEM_TOUCH = auto_init_touch cfg"
    by (simp_all add: auto_enabled_def subsystem_defs)
  have a: "tab5duino_init env cfg_opt w = Some (init_result env cfg_opt w)"
    by (rule tab5duino_init_returns [OF assms(2)])
  have b: "init_log TAB5_SUBSYSTEM_LVGL \<in> set evs \<longleftrightarrow> auto_init_lvgl cfg"
    using f(1) lt(1) en(1) by simp
  have c: "state_of w' TAB5_SUBSYSTEM_LVGL \<noteq> TAB5_SUBSYSTEM_UNINITIALIZED \<longrightarrow>
            init_log TAB5_SUBSYSTEM_LVGL \<in> set evs"
    "ready_log TAB5_SUBSYSTEM_LVGL \<in> set evs \<longrightarrow>
            before (init_log TAB5_SUBSYSTEM_LVGL) (ready_log TAB5_SUBSYSTEM_LVGL) evs"
    using p by simp_all
  have d: "\<forall>k<TAB5_SUBSYSTEM_LVGL. auto_enabled cfg k \<longrightarrow>
               before (init_log k) (init_log TAB5_SUBSYSTEM_LVGL) evs
               \<and> before (ready_log k) (init_log TAB5_SUBSYSTEM_LVGL) evs
               \<and> state_of w' k = TAB5_SUBSYSTEM_READY" if "auto_init_lvgl cfg"
    using l [OF that] f(1) below by blast
  have e: "\<forall>k<TAB5_SUBSYSTEM_LVGL. \<not> auto_enabled cfg k \<longrightarrow>
            init_log k \<notin> set evs \<and> state_of w' k = TAB5_SUBSYSTEM_UNINITIALIZED"
    using f(1) below by blast
  have g: "state_of w' TAB5_SUBSYSTEM_LVGL = TAB5_SUBSYSTEM_READY \<longrightarrow>
            ready_log TAB5_SUBSYSTEM_LVGL \<in> set evs"
    using lvgl_ready_reported [OF assms(1,2), where env = env and cfg_opt = cfg_opt]
    by (simp add: w'_def evs_def)
  from a b c d e g lt(2,3) en(2,3) show ?thesis by simp
qed

theorem lvgl_after_enabled_prerequisites_witness:
  "\<not> framework_initialized (g_tab5duino_instance world_boot)
   \<and> instance_ok (g_tab5duino_instance world_boot)
   \<and> auto_init_lvgl (effective_config None)
   \<and> auto_init_display (effective_config None) \<and> auto_init_touch (effective_config None)
   \<and> TAB5_SUBSYSTEM_DISPLAY < TAB5_SUBSYSTEM_LVGL
   \<and> auto_enabled (effective_config None) TAB5_SUBSYSTEM_DISPLAY
   \<and> TAB5_SUBSYSTEM_USB < TAB5_SUBSYSTEM_LVGL
   \<and> \<not> auto_enabled (effective_config None) TAB5_SUBSYSTEM_USB
   \<and> tab5duino_init env_ok None world_boot = Some (init_result env_ok None world_boot)
   \<and> state_of (snd (init_result env_ok None world_boot)) TAB5_SUBSYSTEM_LVGL
       = TAB5_SUBSYSTEM_READY
   \<and> init_log TAB5_SUBSYSTEM_LVGL \<in> set (trace (snd (init_result env_ok None world_boot)))
   \<and> ready_log TAB5_SUBSYSTEM_LVGL \<in> set (trace (snd (init_result env_ok None world_boot)))
   \<and> before (init_log TAB5_SUBSYSTEM_LVGL) (ready_log TAB5_SUBSYSTEM_LVGL)
        (trace (snd (init_result env_ok None world_boot)))
   \<and> before (init_log TAB5_SUBSYSTEM_DISPLAY) (init_log TAB5_SUBSYSTEM_LVGL)
        (trace (snd (init_result env_ok None world_boot)))
   \<and> before (ready_log TAB5_SUBSYSTEM_DISPLAY) (init_log TAB5_SUBSYSTEM_LVGL)
        (trace (snd (init_result env_ok None world_boot)))
   \<and> before (ready_log TAB5_SUBSYSTEM_TOUCH) (init_log TAB5_SUBSYSTEM_LVGL)
        (trace (snd (init_result env_ok None world_boot)))
   \<and> state_of (snd (init_result env_ok None world_boot)) TAB5_SUBSYSTEM_DISPLAY
       = TAB5_SUBSYSTEM_READY
   \<and> init_log TAB5_SUBSYSTEM_USB \<notin> set (trace (snd (init_result env_ok None world_boot)))
   \<and> state_of (snd (init_result env_ok None world_boot)) TAB5_SUBSYSTEM_USB
       = TAB5_SUBSYSTEM_UNINITIALIZED"
proof -
  have h: "\<not> framework_initialized (g_tab5duino_instance world_boot)"
    "instance_ok (g_tab5duino_instance world_boot)"
    by simp_all
  have c: "auto_init_display (effective_config None)" "auto_init_touch (effective_config None)"
    "auto_init_lvgl (effective_config None)"
    by (simp_all add: TAB5DUINO_CONFIG_DEFAULT_def)
  have e: "TAB5_SUBSYSTEM_DISPLAY < TAB5_SUBSYSTEM_LVGL"
    "auto_enabled (effective_config None) TAB5_SUBSYSTEM_DISPLAY"
    "TAB5_SUBSYSTEM_USB < TAB5_SUBSYSTEM_LVGL"
    "\<not> auto_enabled (effective_config None) TAB5_SUBSYSTEM_USB"
    by (simp_all add: auto_enabled_def subsystem_defs TAB5DUINO_CONFIG_DEFAULT_def)
  have l: "state_of (snd (init_result env_ok None world_boot)) TAB5_SUBSYSTEM_LVGL
             = TAB5_SUBSYSTEM_READY"
    by (simp add: state_of_def init_default_env_ok ready_states_eval TAB5_SUBSYSTEM_LVGL_def
        TAB5DUINO_CONFIG_DEFAULT_def)
  show ?thesis
    using h c e l
      lvgl_after_enabled_prerequisites [OF h, where env = env_ok and cfg_opt = None]
    by simp
qed

text \<open>
  The claim as the specification states it fails: with the display auto-init flag clear
  and the LVGL flag set, LVGL is attempted and becomes \<open>READY\<close> although the display
  subsystem was never attempted and is neither \<open>READY\<close> nor \<open>ERROR\<close>.
\<close>

theorem lvgl_without_display_counterexample:
  "\<not> auto_init_display config_no_display \<and> auto_init_lvgl config_no_display
   \<and> tab5duino_init env_ok (Some config_no_display) world_boot
       = Some (init_result env_ok (Some config_no_display) world_boot)
   \<and> fst (init_result env_ok (Some config_no_display) world_boot) = ESP_OK
   \<and> state_of (snd (init_result env_ok (Some config_no_display) world_boot))
        TAB5_SUBSYSTEM_LVGL = TAB5_SUBSYSTEM_READY
   \<and> state_of (snd (init_result env_ok (Some config_no_display) world_boot))
        TAB5_SUBSYSTEM_DISPLAY = TAB5_SUBSYSTEM_UNINITIALIZED
   \<and> init_log TAB5_SUBSYSTEM_LVGL
        \<in> set (trace (snd (init_result env_ok (Some config_no_display) world_boot)))
   \<and> init_log TAB5_SUBSYSTEM_DISPLAY
        \<notin> set (trace (snd (init_result env_ok (Some config_no_display) world_boot)))"
proof -
  let ?w = "snd (init_result env_ok (Some config_no_display) world_boot)"
  have c: "\<not> auto_init_display config_no_display" "auto_init_lvgl config_no_display"
    by (simp_all add: config_no_display_def TAB5DUINO_CONFIG_DEFAULT_def)
  have m: "init_log s \<in> set (trace ?w) \<longleftrightarrow> auto_enabled config_no_display s"
    if "s < TAB5_SUBSYSTEM_COUNT" for s
    using subsystem_log_mem [of "init_log s" "trace ?w"] that
      init_log_in_ready_events [of s TAB5_SUBSYSTEM_COUNT config_no_display]
    by (simp add: init_default_env_ok)
  have lt: "TAB5_SUBSYSTEM_LVGL < TAB5_SUBSYSTEM_COUNT" "TAB5_SUBSYSTEM_DISPLAY < TAB5_SUBSYSTEM_COUNT"
    by (simp_all add: subsystem_defs)
  have en: "auto_enabled config_no_display TAB5_SUBSYSTEM_LVGL"
    "\<not> auto_enabled config_no_display TAB5_SUBSYSTEM_DISPLAY"
    using c by (simp_all add: auto_enabled_def subsystem_defs)
  have st: "state_of ?w TAB5_SUBSYSTEM_LVGL = TAB5_SUBSYSTEM_READY"
    "state_of ?w TAB5_SUBSYSTEM_DISPLAY = TAB5_SUBSYSTEM_UNINITIALIZED"
    using c
    by (simp_all add: state_of_def init_default_env_ok ready_states_eval
        TAB5_SUBSYSTEM_LVGL_def TAB5_SUBSYSTEM_DISPLAY_def)
  show ?thesis
    using c m [OF lt(1)] m [OF lt(2)] en st
    by (simp add: init_default_env_ok tab5duino_init_returns)
qed

section \<open>The steps before LVGL, and the tick timer\<close>



lemma placeholder_step_simps [simp]:
  "lvgl_tick_timer (placeholder_step e i w) = lvgl_tick_timer w"
  "lvgl_handle (placeholder_step e i w) = lvgl_handle w"
  "config (g_tab5duino_instance (placeholder_step e i w)) = config (g_tab5duino_instance w)"
  "trace (placeholder_step e i w) = trace w @ (if e then [init_log i, ready_log i] else [])"
  by (simp_all add: placeholder_step_def set_state_def)

lemma state_of_placeholder_step [simp]:
  "j \<noteq> i \<Longrightarrow> state_of (placeholder_step e i w) j = state_of w j"
  by (simp add: placeholder_step_def state_of_set_state)

lemma before_lvgl_simps [simp]:
  "lvgl_tick_timer (before_lvgl w) = lvgl_tick_timer w"
  "lvgl_handle (before_lvgl w) = lvgl_handle w"
  "state_of (before_lvgl w) TAB5_SUBSYSTEM_LVGL = state_of w TAB5_SUBSYSTEM_LVGL"
  by (simp_all add: before_lvgl_def Let_def subsystem_defs)






lemma timer_set_state [simp]: "lvgl_tick_timer (set_state i v w) = lvgl_tick_timer w"
  by (simp add: set_state_def)

lemma timer_fold_set_state [simp]:
  "lvgl_tick_timer (fold (\<lambda>i. set_state i v) xs w) = lvgl_tick_timer w"
  by (induction xs arbitrary: w) simp_all





section \<open>Init after deinit\<close>





end
